theory Spec2Isabelle
  imports Main "HOL-Library.Word" "HOL-Library.List_Lexorder" "HOL-Library.Code_Target_Nat"
begin

unbundle bit_operations_syntax

section \<open>Bytes, checksum and record identifiers (db/utils)\<close>

text \<open>
  A \<open>Uint8Array\<close> is a list of bytes. \<open>DataView.setUintN\<close> and \<open>setBigUint64\<close> store the
  low \<open>8k\<close> bits of their argument, most significant byte first; \<open>be_bytes k n\<close> are those
  \<open>k\<close> bytes and \<open>be_nat\<close> reads them back.
\<close>

type_synonym byte = "8 word"

fun be_bytes :: "nat \<Rightarrow> nat \<Rightarrow> byte list" where
  "be_bytes 0 n = []"
| "be_bytes (Suc k) n = of_nat (n div 256 ^ k) # be_bytes k n"

definition be_nat :: "byte list \<Rightarrow> nat" where
  "be_nat bs = foldl (\<lambda>a b. a * 256 + unat b) 0 bs"

text \<open>Results of fallible steps are sums; \<open>then_do\<close> runs the next step on a success.\<close>

definition then_do :: "'e + 'a \<Rightarrow> ('a \<Rightarrow> 'e + 'b) \<Rightarrow> 'e + 'b" where
  "then_do r f = (case r of Inl e \<Rightarrow> Inl e | Inr x \<Rightarrow> f x)"

subsection \<open>CRC-32 (checksum.ts)\<close>

text \<open>
  The table entry for \<open>i\<close> is \<open>i\<close> after eight rounds of the shift-and-xor step; the
  checksum folds the bytes into the running value, starting from \<open>0xffffffff\<close>.
\<close>

definition crc_round :: "32 word \<Rightarrow> 32 word" where
  "crc_round crc = (if crc AND 1 \<noteq> 0 then 0xedb88320 XOR drop_bit 1 crc else drop_bit 1 crc)"

definition CRC32_TABLE :: "nat \<Rightarrow> 32 word" where
  "CRC32_TABLE i = (crc_round ^^ 8) (of_nat i)"

definition crc_step :: "32 word \<Rightarrow> byte \<Rightarrow> 32 word" where
  "crc_step crc b = CRC32_TABLE (unat ((crc XOR ucast b) AND 0xff)) XOR drop_bit 8 crc"

definition crc32 :: "byte list \<Rightarrow> 32 word" where
  "crc32 data = foldl crc_step 0xffffffff data XOR 0xffffffff"

subsection \<open>UUIDs (uuid.ts)\<close>

type_synonym uuid = "byte list"

definition UUID_SIZE :: nat where
  "UUID_SIZE = 16"

text \<open>\<open>a[i] ?? 0\<close>: a read past the end of the array gives 0.\<close>

definition byteAt :: "byte list \<Rightarrow> nat \<Rightarrow> byte" where
  "byteAt a i = (if i < length a then a ! i else 0)"

text \<open>
  \<open>generateUUID\<close>: sixteen random bytes (the argument stands for what
  \<open>crypto.getRandomValues\<close> delivers) with the version and variant bits set.
\<close>

definition generateUUID :: "byte list \<Rightarrow> uuid" where
  "generateUUID rnd =
     (let bytes = take UUID_SIZE (rnd @ replicate UUID_SIZE 0);
          bytes6 = bytes[6 := (byteAt bytes 6 AND 0x0f) OR 0x40]
      in bytes6[8 := (byteAt bytes6 8 AND 0x3f) OR 0x80])"

definition HEX_CHARS :: string where
  "HEX_CHARS = ''0123456789abcdef''"

fun index_of :: "'a \<Rightarrow> 'a list \<Rightarrow> nat option" where
  "index_of x [] = None"
| "index_of x (y # ys) = (if x = y then Some 0 else map_option Suc (index_of x ys))"

definition HEX_LOOKUP :: "char \<Rightarrow> nat" where
  "HEX_LOOKUP c =
     (case index_of c ''0123456789abcdef'' of
        Some i \<Rightarrow> i
      | None \<Rightarrow> (case index_of c ''0123456789ABCDEF'' of Some i \<Rightarrow> i | None \<Rightarrow> 0))"

definition hexPair :: "byte \<Rightarrow> string" where
  "hexPair b = [HEX_CHARS ! unat (drop_bit 4 b), HEX_CHARS ! unat (b AND 0x0f)]"

definition uuidToString :: "uuid \<Rightarrow> string" where
  "uuidToString bytes =
     concat (map (\<lambda>i. (if i = 4 \<or> i = 6 \<or> i = 8 \<or> i = 10 then ''-'' else [])
                        @ hexPair (byteAt bytes i)) [0..<16])"

text \<open>
  \<open>stringToUUID\<close>: hyphens are skipped where a byte would start, two characters make a
  byte (a missing or unknown character counts 0), at most sixteen bytes are read and the
  rest of the sixteen stay 0. \<open>parseHex s n\<close> are the bytes read while \<open>n\<close> may still be
  stored.
\<close>

fun parseHex :: "string \<Rightarrow> nat \<Rightarrow> byte list" where
  "parseHex [] n = []"
| "parseHex (c # cs) n =
     (if n = 0 then []
      else if c = CHR ''-'' then parseHex cs n
      else (case cs of
              [] \<Rightarrow> [of_nat (push_bit 4 (HEX_LOOKUP c))]
            | d # ds \<Rightarrow> of_nat (push_bit 4 (HEX_LOOKUP c) OR HEX_LOOKUP d) # parseHex ds (n - 1)))"

definition stringToUUID :: "string \<Rightarrow> uuid" where
  "stringToUUID str =
     (let bs = parseHex str UUID_SIZE in bs @ replicate (UUID_SIZE - length bs) 0)"

fun compareFrom :: "nat \<Rightarrow> nat \<Rightarrow> uuid \<Rightarrow> uuid \<Rightarrow> int" where
  "compareFrom 0 i a b = 0"
| "compareFrom (Suc n) i a b =
     (let aVal = byteAt a i; bVal = byteAt b i
      in if aVal \<noteq> bVal then int (unat aVal) - int (unat bVal)
         else compareFrom n (Suc i) a b)"

definition compareUUID :: "uuid \<Rightarrow> uuid \<Rightarrow> int" where
  "compareUUID a b = compareFrom UUID_SIZE 0 a b"


section \<open>The B-tree index (core/index.ts)\<close>

text \<open>
  A node holds its keys, the values beside them and, unless it is a leaf, its children
  (\<open>children: IndexNode[] | null\<close>). The source mutates nodes in place; the functions
  below return the node as it is after the call. A \<open>throw\<close> is a result \<open>Inl\<close>.
\<close>

datatype 'v node = Node (keys: "uuid list") (vals: "'v list") (children: "'v node list option")

datatype index_error = SplitEmpty | EmptyNodeInFindMax | EmptyChildren

fun findSlot :: "uuid \<Rightarrow> uuid list \<Rightarrow> nat" where
  "findSlot key [] = 0"
| "findSlot key (nodeKey # rest) =
     (if compareUUID key nodeKey \<le> 0 then 0 else Suc (findSlot key rest))"

definition hit :: "uuid \<Rightarrow> uuid list \<Rightarrow> nat \<Rightarrow> bool" where
  "hit key ks i = (i < length ks \<and> compareUUID key (ks ! i) = 0)"

text \<open>A child is smaller than its parent: the recursions below descend into \<open>cs ! i\<close>.\<close>

lemma size_nth_le: "i < length cs \<Longrightarrow> size (cs ! i) \<le> size_list size cs"
  by (rule size_list_estimation' [OF nth_mem]) auto

lemma size_nth_child [termination_simp]:
  "i < length cs \<Longrightarrow> size (cs ! i) < Suc (Suc (m + size_list size cs))"
  using size_nth_le [of i cs] by simp

fun searchNode :: "'v node \<Rightarrow> uuid \<Rightarrow> 'v option" where
  "searchNode (Node ks vs ch) key =
     (let i = findSlot key ks
      in if hit key ks i then Some (vs ! i)
         else (case ch of
                 None \<Rightarrow> None
               | Some cs \<Rightarrow> if i < length cs then searchNode (cs ! i) key else None))"

definition splice_in :: "nat \<Rightarrow> 'a \<Rightarrow> 'a list \<Rightarrow> 'a list" where
  "splice_in i x xs = take i xs @ x # drop i xs"

definition splice_out :: "nat \<Rightarrow> 'a list \<Rightarrow> 'a list" where
  "splice_out i xs = take i xs @ drop (Suc i) xs"

type_synonym 'v split = "uuid \<times> 'v \<times> 'v node"

definition splitLeaf :: "'v node \<Rightarrow> index_error + ('v node \<times> 'v split)" where
  "splitLeaf n =
     (let mid = length (keys n) div 2;
          rk = drop mid (keys n); rv = drop mid (vals n);
          left = Node (take mid (keys n)) (take mid (vals n)) (children n);
          right = Node rk rv None
      in (case (rk, rv) of
            (firstKey # _, firstValue # _) \<Rightarrow> Inr (left, (firstKey, firstValue, right))
          | _ \<Rightarrow> Inl SplitEmpty))"

definition splitInternal ::
  "uuid list \<Rightarrow> 'v list \<Rightarrow> 'v node list \<Rightarrow> index_error + ('v node \<times> 'v split)" where
  "splitInternal ks vs cs =
     (let mid = length ks div 2
      in if mid < length ks \<and> mid < length vs
         then
           (let promoteKey = ks ! mid; promoteValue = vs ! mid;
                right = Node (drop (Suc mid) ks) (drop (Suc mid) vs) (Some (drop (Suc mid) cs));
                left = Node (butlast (take (Suc mid) ks)) (butlast (take (Suc mid) vs))
                         (Some (take (Suc mid) cs))
            in Inr (left, (promoteKey, promoteValue, right)))
         else Inl SplitEmpty)"

fun insertNode :: "nat \<Rightarrow> 'v node \<Rightarrow> uuid \<Rightarrow> 'v \<Rightarrow> index_error + ('v node \<times> 'v split option \<times> bool)" where
  "insertNode ord (Node ks vs ch) key v =
     (let i = findSlot key ks
      in if hit key ks i then Inr (Node ks (vs[i := v]) ch, None, True)
         else (case ch of
           None \<Rightarrow>
             (let n' = Node (splice_in i key ks) (splice_in i v vs) None
              in if length (keys n') \<ge> ord
                 then (case splitLeaf n' of Inl e \<Rightarrow> Inl e
                       | Inr (l, sp) \<Rightarrow> Inr (l, Some sp, False))
                 else Inr (n', None, False))
         | Some cs \<Rightarrow>
             if i < length cs then
               (case insertNode ord (cs ! i) key v of
                  Inl e \<Rightarrow> Inl e
                | Inr (c', None, ow) \<Rightarrow> Inr (Node ks vs (Some (cs[i := c'])), None, ow)
                | Inr (c', Some (pk, pv, right), ow) \<Rightarrow>
                    (let ks' = splice_in i pk ks; vs' = splice_in i pv vs;
                         cs' = splice_in (Suc i) right (cs[i := c'])
                     in if length ks' \<ge> ord
                        then (case splitInternal ks' vs' cs' of Inl e \<Rightarrow> Inl e
                              | Inr (l, sp) \<Rightarrow> Inr (l, Some sp, ow))
                        else Inr (Node ks' vs' (Some cs'), None, ow)))
             else Inr (Node ks vs ch, None, False)))"

fun findMax :: "'v node \<Rightarrow> index_error + (uuid \<times> 'v)" where
  "findMax (Node ks vs ch) =
     (case ch of
        None \<Rightarrow> if ks \<noteq> [] \<and> length ks \<le> length vs
                then Inr (last ks, vs ! (length ks - 1)) else Inl EmptyNodeInFindMax
      | Some cs \<Rightarrow> if cs \<noteq> [] then findMax (cs ! (length cs - 1)) else Inl EmptyChildren)"

fun deleteNode :: "'v node \<Rightarrow> uuid \<Rightarrow> index_error + ('v node \<times> bool)" where
  "deleteNode (Node ks vs ch) key =
     (let i = findSlot key ks
      in (case ch of
            None \<Rightarrow>
              if hit key ks i then Inr (Node (splice_out i ks) (splice_out i vs) None, True)
              else Inr (Node ks vs ch, False)
          | Some cs \<Rightarrow>
              if hit key ks i then
                (if i < length cs then
                   (case findMax (cs ! i) of
                      Inl e \<Rightarrow> Inl e
                    | Inr (pk, pv) \<Rightarrow>
                        (case deleteNode (cs ! i) pk of
                           Inl e \<Rightarrow> Inl e
                         | Inr (c', found) \<Rightarrow>
                             Inr (Node (ks[i := pk]) (vs[i := pv]) (Some (cs[i := c'])), found)))
                 else Inr (Node ks vs ch, False))
              else
                (if i < length cs then
                   (case deleteNode (cs ! i) key of
                      Inl e \<Rightarrow> Inl e
                    | Inr (c', found) \<Rightarrow> Inr (Node ks vs (Some (cs[i := c'])), found))
                 else Inr (Node ks vs ch, False))))"

fun iterateNode :: "'v node \<Rightarrow> (uuid \<times> 'v) list" where
  "iterateNode (Node ks vs ch) =
     concat (map (\<lambda>i.
        (case ch of
           Some cs \<Rightarrow> if i < length cs then iterateNode (cs ! i) else []
         | None \<Rightarrow> [])
        @ (if i < length vs then [(ks ! i, vs ! i)] else [])) [0..<length ks])
     @ (case ch of
          Some cs \<Rightarrow> if length cs > length ks then iterateNode (cs ! (length cs - 1)) else []
        | None \<Rightarrow> [])"

record 'v btree =
  root :: "'v node"
  order :: nat
  tsize :: int

definition createNode :: "'v node" where
  "createNode = Node [] [] None"

definition newBTree :: "nat \<Rightarrow> 'v btree" where
  "newBTree ord = \<lparr> root = createNode, order = ord, tsize = 0 \<rparr>"

definition bt_get :: "'v btree \<Rightarrow> uuid \<Rightarrow> 'v option" where
  "bt_get t key = searchNode (root t) key"

definition bt_set :: "'v btree \<Rightarrow> uuid \<Rightarrow> 'v \<Rightarrow> index_error + 'v btree" where
  "bt_set t key v =
     (case insertNode (order t) (root t) key v of
        Inl e \<Rightarrow> Inl e
      | Inr (r, sp, ow) \<Rightarrow>
          (let sz = (if ow then tsize t - 1 else tsize t);
               r' = (case sp of
                       None \<Rightarrow> r
                     | Some (k, pv, right) \<Rightarrow> Node [k] [pv] (Some [r, right]))
           in Inr (t\<lparr>root := r', tsize := sz + 1\<rparr>)))"

definition bt_delete :: "'v btree \<Rightarrow> uuid \<Rightarrow> index_error + ('v btree \<times> bool)" where
  "bt_delete t key =
     (case deleteNode (root t) key of
        Inl e \<Rightarrow> Inl e
      | Inr (r, found) \<Rightarrow>
          (let r' = (if found \<and> keys r = [] \<and> children r \<noteq> None
                     then (case children r of
                             Some (firstChild # _) \<Rightarrow> firstChild
                           | _ \<Rightarrow> r)
                     else r)
           in Inr (t\<lparr>root := r', tsize := (if found then tsize t - 1 else tsize t)\<rparr>, found)))"

definition bt_entries :: "'v btree \<Rightarrow> (uuid \<times> 'v) list" where
  "bt_entries t = iterateNode (root t)"

text \<open>Sample data: the key whose last byte is \<open>n\<close>, and a tree filled by successive \<open>set\<close>.\<close>

definition sample_key :: "nat \<Rightarrow> uuid" where
  "sample_key n = replicate 15 0 @ [of_nat n]"

fun set_all :: "'v btree \<Rightarrow> (uuid \<times> 'v) list \<Rightarrow> index_error + 'v btree" where
  "set_all t [] = Inr t"
| "set_all t ((k, v) # kvs) = then_do (bt_set t k v) (\<lambda>t'. set_all t' kvs)"

definition six_keys :: "index_error + nat btree" where
  "six_keys = set_all (newBTree 4) (map (\<lambda>i. (sample_key i, i)) [0..<6])"


section \<open>The binary codec (core/encoder.ts, core/decoder.ts)\<close>

subsection \<open>JavaScript numbers\<close>

text \<open>
  A \<open>number\<close> is an IEEE 754 double. A finite non-zero double has exactly one form
  \<open>\<plusminus> m \<times> 2^e\<close> with \<open>m\<close> odd, which \<open>Finite s e m\<close> records (\<open>s\<close> is the sign bit);
  \<open>is_double\<close> says that the value fits the 53-bit significand and the exponent range of
  binary64. Zero keeps its sign. The bit patterns of a format with \<open>ew\<close> exponent bits and
  \<open>fw\<close> fraction bits are computed by \<open>f_bits\<close> and read by \<open>f_of_bits\<close> (binary64 is
  \<open>11, 52\<close>, binary32 is \<open>8, 23\<close>).
\<close>

datatype number = NaN | Infinity bool | Zero bool | Finite bool int nat

fun bits :: "nat \<Rightarrow> nat" where
  "bits n = (if n = 0 then 0 else Suc (bits (n div 2)))"

fun oddpart :: "nat \<Rightarrow> nat \<times> nat" where
  "oddpart n = (if n = 0 then (0, 0)
                else if even n then (let (k, m) = oddpart (n div 2) in (Suc k, m))
                else (0, n))"

declare bits.simps [simp del] oddpart.simps [simp del]

definition make_finite :: "bool \<Rightarrow> int \<Rightarrow> nat \<Rightarrow> number" where
  "make_finite s e n = (let (k, m) = oddpart n in Finite s (e + int k) m)"

definition is_double :: "number \<Rightarrow> bool" where
  "is_double v = (case v of
      Finite s e m \<Rightarrow> odd m \<and> m < 2 ^ 53 \<and> - 1074 \<le> e \<and> int (bits m) + e \<le> 1024
    | _ \<Rightarrow> True)"

text \<open>\<open>Number.isInteger\<close>, and the mathematical value of an integral number.\<close>

definition isInteger :: "number \<Rightarrow> bool" where
  "isInteger v = (case v of Zero _ \<Rightarrow> True | Finite s e m \<Rightarrow> 0 \<le> e | _ \<Rightarrow> False)"

definition number_int :: "number \<Rightarrow> int" where
  "number_int v = (case v of
      Finite s e m \<Rightarrow> (if s then - 1 else 1) * int m * 2 ^ nat e
    | _ \<Rightarrow> 0)"

text \<open>The number a \<open>DataView\<close> integer getter returns for the integer \<open>n\<close>.\<close>

definition int_number :: "int \<Rightarrow> number" where
  "int_number n = (if n = 0 then Zero False else make_finite (n < 0) 0 (nat \<bar>n\<bar>))"

text \<open>\<open>a === b\<close> on numbers: \<open>NaN\<close> equals nothing, the two zeros are equal.\<close>

definition strict_eq :: "number \<Rightarrow> number \<Rightarrow> bool" where
  "strict_eq a b = (case (a, b) of
      (NaN, _) \<Rightarrow> False
    | (_, NaN) \<Rightarrow> False
    | (Zero _, Zero _) \<Rightarrow> True
    | _ \<Rightarrow> a = b)"

text \<open>
  \<open>Math.fround\<close>: the nearest binary32 value, ties to even; \<open>q\<close> is the exponent of the
  last place of the result, at least that of the smallest subnormal.
\<close>

definition fround :: "number \<Rightarrow> number" where
  "fround v = (case v of
      Finite s e m \<Rightarrow>
        (let E = e + int (bits m) - 1
         in if E > 127 then Infinity s
            else (let q = max (E - 23) (- 149)
                  in if q \<le> e then v
                     else (let k = nat (q - e);
                               quo = m div 2 ^ k; rem = m mod 2 ^ k; half = 2 ^ (k - 1);
                               r = (if rem > half \<or> (rem = half \<and> odd quo) then quo + 1 else quo)
                           in if r = 0 then Zero s
                              else if q = 104 \<and> r = 2 ^ 24 then Infinity s
                              else make_finite s q r)))
    | _ \<Rightarrow> v)"

definition f_bits :: "nat \<Rightarrow> nat \<Rightarrow> number \<Rightarrow> nat" where
  "f_bits ew fw v =
     (let bias = 2 ^ (ew - 1) - 1; sgn = (\<lambda>s. if s then 2 ^ (ew + fw) else (0::nat))
      in case v of
           NaN \<Rightarrow> (2 ^ ew - 1) * 2 ^ fw + 2 ^ (fw - 1)
         | Infinity s \<Rightarrow> sgn s + (2 ^ ew - 1) * 2 ^ fw
         | Zero s \<Rightarrow> sgn s
         | Finite s e m \<Rightarrow>
             (let E = e + int (bits m) - 1
              in if 1 - int bias \<le> E
                 then sgn s + nat (E + int bias) * 2 ^ fw + (m * 2 ^ (Suc fw - bits m) - 2 ^ fw)
                 else sgn s + m * 2 ^ nat (e - (1 - int bias - int fw))))"

definition f_of_bits :: "nat \<Rightarrow> nat \<Rightarrow> nat \<Rightarrow> number" where
  "f_of_bits ew fw n =
     (let bias = 2 ^ (ew - 1) - 1;
          s = (n div 2 ^ (ew + fw) mod 2 = 1);
          be = n div 2 ^ fw mod 2 ^ ew;
          fr = n mod 2 ^ fw
      in if be = 2 ^ ew - 1 then (if fr = 0 then Infinity s else NaN)
         else if be = 0 then (if fr = 0 then Zero s else make_finite s (1 - int bias - int fw) fr)
         else make_finite s (int be - int bias - int fw) (2 ^ fw + fr))"

subsection \<open>Values\<close>

text \<open>
  The values \<open>encodeValue\<close> distinguishes. A string is kept as the bytes of its UTF-8
  form, one \<open>char\<close> per byte, so \<open>TextEncoder.encode\<close> and \<open>TextDecoder.decode\<close> are the
  two readings of the same list (strings with unpaired surrogates and byte sequences that
  are not UTF-8, which the two replace by U+FFFD, are outside the model). A \<open>Date\<close> is its
  time value, \<open>None\<close> for an invalid date. An array is the list of its elements, a hole
  reading as \<open>undefined\<close>. An object is the list of its own enumerable string-keyed
  properties in the order of \<open>Object.keys\<close>. \<open>JFunction\<close> stands for the values of the
  remaining types (functions and symbols).
\<close>

datatype jsval =
    JNull
  | JUndefined
  | JBool bool
  | JNum number
  | JBigInt int
  | JStr string
  | JBin "byte list"
  | JDate "int option"
  | JArr "jsval list"
  | JObj "(string \<times> jsval) list"
  | JFunction

definition utf8_encode :: "string \<Rightarrow> byte list" where
  "utf8_encode s = map (\<lambda>c. of_nat (of_char c)) s"

definition utf8_decode :: "byte list \<Rightarrow> string" where
  "utf8_decode bs = map (\<lambda>b. char_of (unat b)) bs"

subsection \<open>Encoder\<close>

datatype enc_error = VarintTooLarge | UnsupportedType | InvalidTimeValue

text \<open>The bytes \<open>DataView.setIntN\<close> stores for an integer: its residue modulo \<open>2^(8k)\<close>.\<close>

definition int_bytes :: "nat \<Rightarrow> int \<Rightarrow> byte list" where
  "int_bytes k n = be_bytes k (nat (n mod 2 ^ (8 * k)))"

definition writeFloat32 :: "number \<Rightarrow> byte list" where
  "writeFloat32 v = be_bytes 4 (f_bits 8 23 (fround v))"

definition writeFloat64 :: "number \<Rightarrow> byte list" where
  "writeFloat64 v = be_bytes 8 (f_bits 11 52 v)"

definition writeVarint :: "nat \<Rightarrow> enc_error + byte list" where
  "writeVarint v =
     (if v \<le> 0x7f then Inr [of_nat v]
      else if v \<le> 0x3fff then Inr [of_nat (0x80 OR drop_bit 8 v), of_nat (v AND 0xff)]
      else if v \<le> 0x1fffffff
      then Inr [of_nat (0xc0 OR drop_bit 24 v), of_nat (drop_bit 16 v AND 0xff),
                of_nat (drop_bit 8 v AND 0xff), of_nat (v AND 0xff)]
      else Inl VarintTooLarge)"

definition encodeNumber :: "number \<Rightarrow> byte list" where
  "encodeNumber v =
     (if isInteger v then
        (let n = number_int v
         in if - 128 \<le> n \<and> n \<le> 127 then 0x10 # int_bytes 1 n
            else if - 32768 \<le> n \<and> n \<le> 32767 then 0x11 # int_bytes 2 n
            else if - 2147483648 \<le> n \<and> n \<le> 2147483647 then 0x12 # int_bytes 4 n
            else 0x21 # writeFloat64 v)
      else if strict_eq (fround v) v then 0x20 # writeFloat32 v
      else 0x21 # writeFloat64 v)"

definition encodeBigInt :: "int \<Rightarrow> byte list" where
  "encodeBigInt n = (if n \<ge> 0 then 0x17 # int_bytes 8 n else 0x13 # int_bytes 8 n)"

text \<open>Output so far followed by the output of the next step, unless either step throws.\<close>

definition followed_by :: "enc_error + byte list \<Rightarrow> enc_error + byte list \<Rightarrow> enc_error + byte list" where
  "followed_by a b =
     (case a of Inl e \<Rightarrow> Inl e
      | Inr x \<Rightarrow> (case b of Inl e \<Rightarrow> Inl e | Inr y \<Rightarrow> Inr (x @ y)))"

definition encodeString :: "string \<Rightarrow> enc_error + byte list" where
  "encodeString s =
     (let encoded = utf8_encode s
      in followed_by (Inr [0x30]) (followed_by (writeVarint (length encoded)) (Inr encoded)))"

definition encodeBinary :: "byte list \<Rightarrow> enc_error + byte list" where
  "encodeBinary b = followed_by (Inr [0x31]) (followed_by (writeVarint (length b)) (Inr b))"

definition encodeDate :: "int option \<Rightarrow> enc_error + byte list" where
  "encodeDate t = (case t of None \<Rightarrow> Inl InvalidTimeValue | Some ms \<Rightarrow> Inr (0x60 # int_bytes 8 ms))"

fun encodeValue :: "jsval \<Rightarrow> enc_error + byte list"
  and encodeElems :: "jsval list \<Rightarrow> enc_error + byte list"
  and encodeProps :: "(string \<times> jsval) list \<Rightarrow> enc_error + byte list" where
  "encodeValue JNull = Inr [0x00]"
| "encodeValue JUndefined = Inr [0x01]"
| "encodeValue (JBool b) = Inr [if b then 0x02 else 0x03]"
| "encodeValue (JNum v) = Inr (encodeNumber v)"
| "encodeValue (JBigInt n) = Inr (encodeBigInt n)"
| "encodeValue (JStr s) = encodeString s"
| "encodeValue (JBin b) = encodeBinary b"
| "encodeValue (JDate t) = encodeDate t"
| "encodeValue (JArr xs) =
     followed_by (Inr [0x40]) (followed_by (writeVarint (length xs)) (encodeElems xs))"
| "encodeValue (JObj ps) =
     followed_by (Inr [0x50]) (followed_by (writeVarint (length ps)) (encodeProps ps))"
| "encodeValue JFunction = Inl UnsupportedType"
| "encodeElems [] = Inr []"
| "encodeElems (x # xs) = followed_by (encodeValue x) (encodeElems xs)"
| "encodeProps [] = Inr []"
| "encodeProps (p # ps) =
     followed_by (encodeString (fst p)) (followed_by (encodeValue (snd p)) (encodeProps ps))"

definition encode :: "jsval \<Rightarrow> enc_error + byte list" where
  "encode v = encodeValue v"

subsection \<open>Decoder\<close>

text \<open>
  The decoder's state is the part of the buffer from \<open>offset\<close> on. A read returns its
  value and the rest of the buffer. \<open>NestingTooDeep\<close> is not an error of the source: the
  recursion of \<open>decodeValue\<close> is bounded here by a nesting depth, and \<open>decode\<close> starts it
  with the length of the buffer, which no nesting can exceed (every nested value takes
  a byte).
\<close>

datatype dec_error = Underflow | InvalidVarint | InvalidKey | UnknownType nat | NestingTooDeep

type_synonym 'a dec = "dec_error + ('a \<times> byte list)"

definition readUint8 :: "byte list \<Rightarrow> nat dec" where
  "readUint8 bs = (case bs of [] \<Rightarrow> Inl Underflow | b # r \<Rightarrow> Inr (unat b, r))"

definition readBytes :: "nat \<Rightarrow> byte list \<Rightarrow> (byte list) dec" where
  "readBytes n bs = (if length bs < n then Inl Underflow else Inr (take n bs, drop n bs))"

definition readUint :: "nat \<Rightarrow> byte list \<Rightarrow> nat dec" where
  "readUint k bs = then_do (readBytes k bs) (\<lambda>(x, r). Inr (be_nat x, r))"

definition signed :: "nat \<Rightarrow> nat \<Rightarrow> int" where
  "signed k u = (if u \<ge> 2 ^ (8 * k - 1) then int u - 2 ^ (8 * k) else int u)"

definition readInt :: "nat \<Rightarrow> byte list \<Rightarrow> int dec" where
  "readInt k bs = then_do (readBytes k bs) (\<lambda>(x, r). Inr (signed k (be_nat x), r))"

definition readVarint :: "byte list \<Rightarrow> nat dec" where
  "readVarint bs =
     then_do (readUint8 bs) (\<lambda>(first, r1).
       if first AND 0x80 = 0 then Inr (first, r1)
       else if first AND 0xc0 = 0x80 then
         then_do (readUint8 r1) (\<lambda>(second, r2). Inr (push_bit 8 (first AND 0x3f) OR second, r2))
       else if first AND 0xe0 = 0xc0 then
         then_do (readUint8 r1) (\<lambda>(b1, r2).
         then_do (readUint8 r2) (\<lambda>(b2, r3).
         then_do (readUint8 r3) (\<lambda>(b3, r4).
           Inr (push_bit 24 (first AND 0x1f) OR push_bit 16 b1 OR push_bit 8 b2 OR b3, r4))))
       else Inl InvalidVarint)"

definition decodeString :: "byte list \<Rightarrow> string dec" where
  "decodeString bs =
     then_do (readVarint bs) (\<lambda>(len, r).
     then_do (readBytes len r) (\<lambda>(b, r'). Inr (utf8_decode b, r')))"

definition decodeBinary :: "byte list \<Rightarrow> (byte list) dec" where
  "decodeBinary bs = then_do (readVarint bs) (\<lambda>(len, r). readBytes len r)"

text \<open>\<open>new Date(Number(timestamp))\<close>: a time value beyond 8.64e15 ms gives an invalid date.\<close>

definition decodeDate :: "byte list \<Rightarrow> (int option) dec" where
  "decodeDate bs =
     then_do (readInt 8 bs) (\<lambda>(t, r).
       Inr (if \<bar>t\<bar> \<le> 8640000000000000 then Some t else None, r))"

text \<open>
  \<open>result[key] = value\<close> on the object under construction: an existing property keeps
  its place and takes the new value, a new one is added last; the key \<open>__proto__\<close> reaches
  the prototype setter and creates no property.
\<close>

definition obj_set :: "(string \<times> jsval) list \<Rightarrow> string \<Rightarrow> jsval \<Rightarrow> (string \<times> jsval) list" where
  "obj_set ps k v =
     (if k = ''__proto__'' then ps
      else if k \<in> fst ` set ps then map (\<lambda>(k', v'). if k' = k then (k', v) else (k', v')) ps
      else ps @ [(k, v)])"

text \<open>
  The cases of the \<open>switch\<close> in \<open>decodeValue\<close> that do not recurse, then the whole
  \<open>switch\<close>: the array and object cases, and the other tags through \<open>decodeScalar\<close>.
\<close>

definition decodeScalar :: "byte \<Rightarrow> byte list \<Rightarrow> jsval dec" where
  "decodeScalar t bs =
     (if t = 0x00 then Inr (JNull, bs)
      else if t = 0x01 then Inr (JUndefined, bs)
      else if t = 0x02 then Inr (JBool True, bs)
      else if t = 0x03 then Inr (JBool False, bs)
      else if t = 0x10 then then_do (readInt 1 bs) (\<lambda>(n, r). Inr (JNum (int_number n), r))
      else if t = 0x11 then then_do (readInt 2 bs) (\<lambda>(n, r). Inr (JNum (int_number n), r))
      else if t = 0x12 then then_do (readInt 4 bs) (\<lambda>(n, r). Inr (JNum (int_number n), r))
      else if t = 0x13 then then_do (readInt 8 bs) (\<lambda>(n, r). Inr (JBigInt n, r))
      else if t = 0x14 then then_do (readUint 1 bs) (\<lambda>(n, r). Inr (JNum (int_number (int n)), r))
      else if t = 0x15 then then_do (readUint 2 bs) (\<lambda>(n, r). Inr (JNum (int_number (int n)), r))
      else if t = 0x16 then then_do (readUint 4 bs) (\<lambda>(n, r). Inr (JNum (int_number (int n)), r))
      else if t = 0x17 then then_do (readUint 8 bs) (\<lambda>(n, r). Inr (JBigInt (int n), r))
      else if t = 0x20 then then_do (readUint 4 bs) (\<lambda>(n, r). Inr (JNum (f_of_bits 8 23 n), r))
      else if t = 0x21 then then_do (readUint 8 bs) (\<lambda>(n, r). Inr (JNum (f_of_bits 11 52 n), r))
      else if t = 0x30 then then_do (decodeString bs) (\<lambda>(s, r). Inr (JStr s, r))
      else if t = 0x31 then then_do (decodeBinary bs) (\<lambda>(b, r). Inr (JBin b, r))
      else if t = 0x60 then then_do (decodeDate bs) (\<lambda>(t, r). Inr (JDate t, r))
      else if t = 0x70 then then_do (readBytes UUID_SIZE bs) (\<lambda>(b, r). Inr (JBin b, r))
      else Inl (UnknownType (unat t)))"

fun decodeValue :: "nat \<Rightarrow> byte list \<Rightarrow> jsval dec"
  and decodeElems :: "nat \<Rightarrow> nat \<Rightarrow> byte list \<Rightarrow> (jsval list) dec"
  and decodeProps :: "nat \<Rightarrow> nat \<Rightarrow> (string \<times> jsval) list \<Rightarrow> byte list \<Rightarrow> ((string \<times> jsval) list) dec"
  where
  "decodeValue d [] = Inl Underflow"
| "decodeValue 0 (t # bs) = Inl NestingTooDeep"
| "decodeValue (Suc d) (t # bs) =
     (if t = 0x40 then
        then_do (readVarint bs) (\<lambda>(n, r).
        then_do (decodeElems d n r) (\<lambda>(xs, r'). Inr (JArr xs, r')))
      else if t = 0x50 then
        then_do (readVarint bs) (\<lambda>(n, r).
        then_do (decodeProps d n [] r) (\<lambda>(ps, r'). Inr (JObj ps, r')))
      else decodeScalar t bs)"
| "decodeElems d 0 bs = Inr ([], bs)"
| "decodeElems d (Suc n) bs =
     then_do (decodeValue d bs) (\<lambda>(v, r).
     then_do (decodeElems d n r) (\<lambda>(vs, r'). Inr (v # vs, r')))"
| "decodeProps d 0 acc bs = Inr (acc, bs)"
| "decodeProps d (Suc n) acc bs =
     then_do (readUint8 bs) (\<lambda>(keyType, r).
       if keyType \<noteq> 0x30 then Inl InvalidKey
       else then_do (decodeString r) (\<lambda>(key, r1).
            then_do (decodeValue d r1) (\<lambda>(v, r2). decodeProps d n (obj_set acc key v) r2)))"

definition decode :: "byte list \<Rightarrow> dec_error + jsval" where
  "decode buffer = map_sum id fst (decodeValue (length buffer) buffer)"

subsection \<open>Number widths, in the words of the specification\<close>

text \<open>
  \<open>fits_signed w n\<close>: the integer \<open>n\<close> fits the signed \<open>w\<close>-bit range. \<open>single_exact v\<close>: the
  number \<open>v\<close> is a value of binary32 (at most 24 significant bits, the last place not
  below \<open>2^-149\<close>, the magnitude below \<open>2^128\<close>), so that it comes back unchanged from
  single precision; \<open>NaN\<close> never compares equal, not even to itself.
\<close>

definition fits_signed :: "nat \<Rightarrow> int \<Rightarrow> bool" where
  "fits_signed w n = (- (2 ^ (w - 1)) \<le> n \<and> n < 2 ^ (w - 1))"

definition single_exact :: "number \<Rightarrow> bool" where
  "single_exact v = (case v of
      NaN \<Rightarrow> False
    | Finite s e m \<Rightarrow> m < 2 ^ 24 \<and> - 149 \<le> e \<and> e + int (bits m) \<le> 128
    | _ \<Rightarrow> True)"


section \<open>Record storage (core/storage.ts)\<close>

record location =
  loc_offset :: nat
  loc_size :: nat
  loc_checksum :: "32 word"

record header =
  magic :: string
  versionMajor :: nat
  versionMinor :: nat
  flags :: nat
  indexOffset :: nat
  hdr_dataOffset :: nat
  recordCount :: int

definition MAGIC_BYTES :: string where
  "MAGIC_BYTES = ''DOWE''"

definition HEADER_SIZE :: nat where
  "HEADER_SIZE = 32"

text \<open>
  A \<open>Storage\<close> object together with the content of the file at its path. The B-tree of
  its \<open>IndexManager\<close> has the default order 64.
\<close>

record storage =
  disk :: "byte list"
  hdr :: header
  index :: "location btree"
  dataOffset :: nat

datatype storage_error =
    Corruption
  | InvalidDatabase
  | DatabaseNotFound
  | OutOfBounds
  | Encode enc_error
  | Decode dec_error
  | Index index_error

definition DEFAULT_ORDER :: nat where
  "DEFAULT_ORDER = 64"

definition newStorage :: "byte list \<Rightarrow> storage" where
  "newStorage content =
     \<lparr> disk = content,
       hdr = \<lparr> magic = MAGIC_BYTES, versionMajor = 1, versionMinor = 0, flags = 0,
               indexOffset = 0, hdr_dataOffset = HEADER_SIZE, recordCount = 0 \<rparr>,
       index = newBTree DEFAULT_ORDER,
       dataOffset = HEADER_SIZE \<rparr>"

definition serializeHeader :: "header \<Rightarrow> byte list" where
  "serializeHeader h =
     utf8_encode MAGIC_BYTES @ be_bytes 1 (versionMajor h) @ be_bytes 1 (versionMinor h)
     @ be_bytes 2 (flags h) @ be_bytes 8 (indexOffset h) @ be_bytes 8 (hdr_dataOffset h)
     @ int_bytes 8 (recordCount h)"

definition slice :: "nat \<Rightarrow> nat \<Rightarrow> byte list \<Rightarrow> byte list" where
  "slice a b bs = take (b - a) (drop a bs)"

definition deserializeHeader :: "byte list \<Rightarrow> header" where
  "deserializeHeader buffer =
     \<lparr> magic = utf8_decode (slice 0 4 buffer),
       versionMajor = be_nat (slice 4 5 buffer),
       versionMinor = be_nat (slice 5 6 buffer),
       flags = be_nat (slice 6 8 buffer),
       indexOffset = be_nat (slice 8 16 buffer),
       hdr_dataOffset = be_nat (slice 16 24 buffer),
       recordCount = int (be_nat (slice 24 32 buffer)) \<rparr>"

text \<open>
  \<open>loadIndex\<close>: entries of 32 bytes are read from the index block and set in the index
  until the block is used up; a shorter rest makes a read throw "Buffer underflow".
\<close>

function loadEntries :: "byte list \<Rightarrow> location btree \<Rightarrow> storage_error + location btree" where
  "loadEntries bs t =
     (if bs = [] then Inr t
      else if length bs < 32 then Inl (Decode Underflow)
      else then_do
             (map_sum Index id
                (bt_set t (slice 0 16 bs)
                   \<lparr> loc_offset = be_nat (slice 16 24 bs), loc_size = be_nat (slice 24 28 bs),
                     loc_checksum = of_nat (be_nat (slice 28 32 bs)) \<rparr>))
             (\<lambda>t'. loadEntries (drop 32 bs) t'))"
  by pat_completeness auto
termination
  by (relation "measure (\<lambda>(bs, t). length bs)") auto

declare loadEntries.simps [simp del]

definition loadDatabase :: "storage \<Rightarrow> storage_error + storage" where
  "loadDatabase s =
     (if length (disk s) < HEADER_SIZE then Inl OutOfBounds
      else
        (let h = deserializeHeader (take HEADER_SIZE (disk s))
         in if magic h \<noteq> MAGIC_BYTES then Inl InvalidDatabase
            else then_do
                   (if indexOffset h > 0
                    then loadEntries (drop (indexOffset h) (disk s)) (index s)
                    else Inr (index s))
                   (\<lambda>ix. Inr (s\<lparr>hdr := h, index := ix, dataOffset := hdr_dataOffset h\<rparr>))))"

definition createDatabase :: "storage \<Rightarrow> storage" where
  "createDatabase s = s\<lparr>disk := serializeHeader (hdr s), dataOffset := HEADER_SIZE\<rparr>"

text \<open>
  \<open>open\<close>: \<open>exists\<close> tells whether the file is there; when it is, the field \<open>disk\<close> holds
  its content.
\<close>

definition openStorage :: "bool \<Rightarrow> bool \<Rightarrow> storage \<Rightarrow> storage_error + storage" where
  "openStorage exists create s =
     (if exists then loadDatabase s
      else if create then Inr (createDatabase s)
      else Inl DatabaseNotFound)"

text \<open>
  \<open>new Uint8Array(newSize)\<close> filled from the first \<open>offset\<close> bytes of the old content and
  then with \<open>block\<close> at \<open>offset\<close>: what \<open>write\<close> and \<open>persistIndex\<close> put in the file.
\<close>

definition rewrite_from :: "nat \<Rightarrow> byte list \<Rightarrow> byte list \<Rightarrow> byte list" where
  "rewrite_from off block existing =
     take off existing @ replicate (off - length existing) 0 @ block"

record write_result =
  w_id :: string
  w_offset :: nat
  w_size :: nat

definition storage_write :: "byte list \<Rightarrow> jsval \<Rightarrow> storage \<Rightarrow> storage_error + (write_result \<times> storage)" where
  "storage_write rnd data s =
     then_do (map_sum Encode id (encodeValue data)) (\<lambda>encoded.
       let checksum = crc32 encoded;
           ident = generateUUID rnd;
           off = dataOffset s;
           sz = length encoded;
           recordBuffer = ident @ be_bytes 4 sz @ encoded;
           newContent = rewrite_from off recordBuffer (disk s)
       in then_do
            (map_sum Index id
               (bt_set (index s) ident \<lparr> loc_offset = off, loc_size = sz, loc_checksum = checksum \<rparr>))
            (\<lambda>ix.
               let off' = off + length recordBuffer
               in Inr (\<lparr> w_id = uuidToString ident, w_offset = off, w_size = sz \<rparr>,
                       s\<lparr> disk := newContent, index := ix, dataOffset := off',
                          hdr := (hdr s)\<lparr> recordCount := recordCount (hdr s) + 1,
                                           hdr_dataOffset := off' \<rparr> \<rparr>)))"

definition storage_read :: "string \<Rightarrow> storage \<Rightarrow> storage_error + jsval" where
  "storage_read ident s =
     (case bt_get (index s) (stringToUUID ident) of
        None \<Rightarrow> Inr JNull
      | Some loc \<Rightarrow>
          (let recordStart = loc_offset loc + UUID_SIZE + 4;
               recordEnd = recordStart + loc_size loc;
               recordBuffer = slice recordStart recordEnd (disk s)
           in if crc32 recordBuffer \<noteq> loc_checksum loc then Inl Corruption
              else map_sum Decode id (decode recordBuffer)))"

definition storage_delete :: "string \<Rightarrow> storage \<Rightarrow> storage_error + (bool \<times> storage)" where
  "storage_delete ident s =
     then_do (map_sum Index id (bt_delete (index s) (stringToUUID ident))) (\<lambda>(ix, deleted).
       Inr (deleted,
            s\<lparr> index := ix,
               hdr := (if deleted then (hdr s)\<lparr> recordCount := recordCount (hdr s) - 1 \<rparr>
                       else hdr s) \<rparr>))"

definition indexEntry :: "uuid \<times> location \<Rightarrow> byte list" where
  "indexEntry e =
     take UUID_SIZE (fst e @ replicate UUID_SIZE 0) @ be_bytes 8 (loc_offset (snd e))
     @ be_bytes 4 (loc_size (snd e)) @ be_bytes 4 (unat (loc_checksum (snd e)))"

definition persistIndex :: "storage \<Rightarrow> storage" where
  "persistIndex s =
     (let entries = bt_entries (index s);
          indexBuffer = concat (map indexEntry entries)
      in s\<lparr> hdr := (hdr s)\<lparr> indexOffset := dataOffset s \<rparr>,
            disk := rewrite_from (dataOffset s) indexBuffer (disk s) \<rparr>)"

definition persistHeader :: "storage \<Rightarrow> storage_error + storage" where
  "persistHeader s =
     (if length (disk s) < HEADER_SIZE then Inl OutOfBounds
      else Inr (s\<lparr> disk := serializeHeader (hdr s) @ drop HEADER_SIZE (disk s) \<rparr>))"

definition flush :: "storage \<Rightarrow> storage_error + storage" where
  "flush s = persistHeader (persistIndex s)"

definition bt_clear :: "'v btree \<Rightarrow> 'v btree" where
  "bt_clear t = t\<lparr> root := createNode, tsize := 0 \<rparr>"

definition close :: "storage \<Rightarrow> storage_error + storage" where
  "close s = then_do (flush s) (\<lambda>s'. Inr (s'\<lparr> index := bt_clear (index s') \<rparr>))"

text \<open>\<open>createStorage(path)\<close> and \<open>openStorage(path)\<close> on a path whose file, if any, has the given content.\<close>

definition createStorage :: "byte list option \<Rightarrow> storage_error + storage" where
  "createStorage content =
     (case content of
        Some c \<Rightarrow> openStorage True True (newStorage c)
      | None \<Rightarrow> openStorage False True (newStorage []))"

definition openExisting :: "byte list option \<Rightarrow> storage_error + storage" where
  "openExisting content =
     (case content of
        Some c \<Rightarrow> openStorage True False (newStorage c)
      | None \<Rightarrow> openStorage False False (newStorage []))"

text \<open>
  \<open>compact\<close>: the live records are decoded from this file and written to a new storage
  on the temporary path (\<open>tmp\<close> is the content of a file already there, if any; \<open>rnd k\<close>
  are the random bytes of the \<open>k\<close>-th \<open>write\<close>). The new file replaces this one and
  \<open>this.open()\<close> loads it into this object, whose index is not cleared before.
\<close>

fun copyRecords ::
  "byte list \<Rightarrow> (nat \<Rightarrow> byte list) \<Rightarrow> nat \<Rightarrow> (uuid \<times> location) list \<Rightarrow> storage
     \<Rightarrow> storage_error + storage" where
  "copyRecords src rnd k [] ns = Inr ns"
| "copyRecords src rnd k (e # es) ns =
     (let recordStart = loc_offset (snd e) + UUID_SIZE + 4;
          recordEnd = recordStart + loc_size (snd e);
          recordBuffer = slice recordStart recordEnd src
      in then_do (map_sum Decode id (decode recordBuffer)) (\<lambda>data.
         then_do (storage_write (rnd k) data ns) (\<lambda>(res, ns').
           copyRecords src rnd (Suc k) es ns')))"

definition compact :: "byte list option \<Rightarrow> (nat \<Rightarrow> byte list) \<Rightarrow> storage \<Rightarrow> storage_error + storage" where
  "compact tmp rnd s =
     (let entries = bt_entries (index s)
      in then_do (createStorage tmp) (\<lambda>ns0.
         then_do (copyRecords (disk s) rnd 0 entries ns0) (\<lambda>ns1.
         then_do (flush ns1) (\<lambda>ns2.
         then_do (close ns2) (\<lambda>ns3.
           openStorage True True (s\<lparr> disk := disk ns3 \<rparr>))))))"


subsection \<open>Sample storages\<close>

text \<open>
  \<open>flushed_one\<close> is the storage left by \<open>createStorage\<close> on a new path, one \<open>write(null)\<close>
  that drew the random bytes \<open>rnd1\<close>, and \<open>flush()\<close>: a header, one record and an index
  block of one entry. \<open>two_records\<close> is that storage after \<open>write(true)\<close> drew \<open>rnd2\<close>.
\<close>

definition rnd1 :: "byte list" where
  "rnd1 = [1, 2, 3, 4, 5, 6, 7, 8, 9, 10, 11, 12, 13, 14, 15, 16]"

definition rnd2 :: "byte list" where
  "rnd2 = [17, 18, 19, 20, 21, 22, 23, 24, 25, 26, 27, 28, 29, 30, 31, 32]"

definition id1 :: uuid where
  "id1 = [1, 2, 3, 4, 5, 6, 71, 8, 137, 10, 11, 12, 13, 14, 15, 16]"

definition id2 :: uuid where
  "id2 = [17, 18, 19, 20, 21, 22, 71, 24, 153, 26, 27, 28, 29, 30, 31, 32]"

definition loc1 :: location where
  "loc1 = \<lparr>loc_offset = 32, loc_size = 1, loc_checksum = 0xd202ef8d\<rparr>"

definition loc2 :: location where
  "loc2 = \<lparr>loc_offset = 53, loc_size = 1, loc_checksum = 0x3c0c8ea1\<rparr>"

definition header_one :: "byte list" where
  "header_one = [68, 79, 87, 69, 1, 0, 0, 0, 0, 0, 0, 0, 0, 0, 0, 53, 0, 0, 0, 0, 0, 0, 0, 53,
                 0, 0, 0, 0, 0, 0, 0, 1]"

definition record_one :: "byte list" where
  "record_one = id1 @ [0, 0, 0, 1, 0]"

definition record_two :: "byte list" where
  "record_two = id2 @ [0, 0, 0, 1, 2]"

definition flushed_one :: storage where
  "flushed_one =
     \<lparr> disk = header_one @ record_one @ (id1 @ [0, 0, 0, 0, 0, 0, 0, 32, 0, 0, 0, 1, 210, 2, 239, 141]),
       hdr = \<lparr> magic = ''DOWE'', versionMajor = 1, versionMinor = 0, flags = 0,
               indexOffset = 53, hdr_dataOffset = 53, recordCount = 1 \<rparr>,
       index = \<lparr> root = Node [id1] [loc1] None, order = 64, tsize = 1 \<rparr>,
       dataOffset = 53 \<rparr>"

definition two_records :: storage where
  "two_records =
     \<lparr> disk = header_one @ record_one @ record_two,
       hdr = \<lparr> magic = ''DOWE'', versionMajor = 1, versionMinor = 0, flags = 0,
               indexOffset = 53, hdr_dataOffset = 74, recordCount = 2 \<rparr>,
       index = \<lparr> root = Node [id1, id2] [loc1, loc2] None, order = 64, tsize = 2 \<rparr>,
       dataOffset = 74 \<rparr>"

text \<open>\<open>two_records\<close> with the payload byte of the second record changed on disk.\<close>

definition damaged :: storage where
  "damaged = two_records\<lparr> disk := header_one @ record_one @ id2 @ [0, 0, 0, 1, 3] \<rparr>"

text \<open>
  Samples for \<open>compact\<close>: the random bytes drawn by the \<open>k\<close>-th \<open>write\<close> into the temporary
  storage, the id made of the first draw, the storage \<open>createStorage\<close> makes on a path
  without a file, and that storage after the one record of \<open>flushed_one\<close> was copied.
\<close>

definition rnds :: "nat \<Rightarrow> byte list" where
  "rnds k = map (\<lambda>i. of_nat (i + 16 * k + 33)) [0..<16]"

definition id3 :: uuid where
  "id3 = [33, 34, 35, 36, 37, 38, 71, 40, 169, 42, 43, 44, 45, 46, 47, 48]"

definition header_zero :: "byte list" where
  "header_zero = [68, 79, 87, 69, 1, 0, 0, 0, 0, 0, 0, 0, 0, 0, 0, 0, 0, 0, 0, 0, 0, 0, 0, 32,
                  0, 0, 0, 0, 0, 0, 0, 0]"

definition fresh_storage :: storage where
  "fresh_storage =
     \<lparr> disk = header_zero,
       hdr = \<lparr> magic = ''DOWE'', versionMajor = 1, versionMinor = 0, flags = 0,
               indexOffset = 0, hdr_dataOffset = 32, recordCount = 0 \<rparr>,
       index = \<lparr> root = Node [] [] None, order = 64, tsize = 0 \<rparr>,
       dataOffset = 32 \<rparr>"

definition copied_one :: storage where
  "copied_one =
     \<lparr> disk = header_zero @ id3 @ [0, 0, 0, 1, 0],
       hdr = \<lparr> magic = ''DOWE'', versionMajor = 1, versionMinor = 0, flags = 0,
               indexOffset = 0, hdr_dataOffset = 53, recordCount = 1 \<rparr>,
       index = \<lparr> root = Node [id3] [loc1] None, order = 64, tsize = 1 \<rparr>,
       dataOffset = 53 \<rparr>"


section \<open>The domain collection (loaders/domainLoader.ts)\<close>

text \<open>
  A domain in the store is the JavaScript object as created or as decoded from storage.
  \<open>value.key\<close> reads a property (\<open>undefined\<close> when there is none); \<open>if (value)\<close> tests
  truthiness. The two \<open>Map\<close>s of the store keep their entries in insertion order.
\<close>

definition get_prop :: "jsval \<Rightarrow> string \<Rightarrow> jsval" where
  "get_prop v k = (case v of
      JObj ps \<Rightarrow> (case map_of ps k of Some x \<Rightarrow> x | None \<Rightarrow> JUndefined)
    | _ \<Rightarrow> JUndefined)"

definition truthy :: "jsval \<Rightarrow> bool" where
  "truthy v = (case v of
      JNull \<Rightarrow> False
    | JUndefined \<Rightarrow> False
    | JBool b \<Rightarrow> b
    | JNum n \<Rightarrow> (case n of NaN \<Rightarrow> False | Zero _ \<Rightarrow> False | _ \<Rightarrow> True)
    | JBigInt n \<Rightarrow> n \<noteq> 0
    | JStr s \<Rightarrow> s \<noteq> []
    | _ \<Rightarrow> True)"

type_synonym 'v jsmap = "(jsval \<times> 'v) list"

definition map_get :: "'v jsmap \<Rightarrow> jsval \<Rightarrow> 'v option" where
  "map_get m k = map_of m k"

definition map_has :: "'v jsmap \<Rightarrow> jsval \<Rightarrow> bool" where
  "map_has m k = (map_of m k \<noteq> None)"

definition map_set :: "'v jsmap \<Rightarrow> jsval \<Rightarrow> 'v \<Rightarrow> 'v jsmap" where
  "map_set m k v =
     (if map_has m k then map (\<lambda>(k', v'). if k' = k then (k', v) else (k', v')) m
      else m @ [(k, v)])"

definition map_delete :: "'v jsmap \<Rightarrow> jsval \<Rightarrow> 'v jsmap" where
  "map_delete m k = filter (\<lambda>(k', _). k' \<noteq> k) m"

record domain_store =
  dstorage :: "storage option"
  domains :: "jsval jsmap"
  byHostname :: "jsval jsmap"

datatype domain_error =
    NotInitialized
  | DomainExists string
  | DomainNotFound string
  | Storage storage_error

text \<open>
  \<open>loadAllDomains\<close>: every entry of the index is read by the string form of its key; a
  truthy result is put in both maps.
\<close>

fun loadDomains :: "storage \<Rightarrow> uuid list \<Rightarrow> jsval jsmap \<times> jsval jsmap
    \<Rightarrow> domain_error + (jsval jsmap \<times> jsval jsmap)" where
  "loadDomains st [] maps = Inr maps"
| "loadDomains st (idBytes # rest) maps =
     then_do (map_sum Storage id (storage_read (uuidToString idBytes) st)) (\<lambda>domain.
       loadDomains st rest
         (if truthy domain
          then (map_set (fst maps) (get_prop domain ''id'') domain,
                map_set (snd maps) (get_prop domain ''hostname'') domain)
          else maps))"

text \<open>
  \<open>initDomainStorage\<close> in a new process (both maps empty); the argument is the content
  of the file at \<open>config.domainsDbPath\<close>, if there is one.
\<close>

definition initDomainStorage :: "byte list option \<Rightarrow> domain_error + domain_store" where
  "initDomainStorage content =
     then_do (map_sum Storage id
                (case content of Some c \<Rightarrow> openExisting (Some c) | None \<Rightarrow> createStorage None))
       (\<lambda>st. then_do (loadDomains st (map fst (bt_entries (index st))) ([], []))
         (\<lambda>(ds, hs). Inr \<lparr> dstorage = Some st, domains = ds, byHostname = hs \<rparr>))"

definition getAllDomains :: "domain_store \<Rightarrow> jsval list" where
  "getAllDomains s = map snd (domains s)"

definition getDomainById :: "domain_store \<Rightarrow> string \<Rightarrow> jsval option" where
  "getDomainById s i = map_get (domains s) (JStr i)"

definition getDomainByHostname :: "domain_store \<Rightarrow> string \<Rightarrow> jsval option" where
  "getDomainByHostname s h = map_get (byHostname s) (JStr h)"

record domain_create_input =
  in_hostname :: string
  in_projectId :: string

text \<open>
  \<open>createDomain\<close>: \<open>now\<close> is \<open>Date.now()\<close>, \<open>rndId\<close> the random bytes of the domain's own
  id and \<open>rndRec\<close> those \<open>Storage.write\<close> draws for the record.
\<close>

definition createDomain ::
  "domain_create_input \<Rightarrow> number \<Rightarrow> byte list \<Rightarrow> byte list \<Rightarrow> domain_store
     \<Rightarrow> domain_error + (jsval \<times> domain_store)" where
  "createDomain input now rndId rndRec s =
     (case dstorage s of
        None \<Rightarrow> Inl NotInitialized
      | Some st \<Rightarrow>
          if map_has (byHostname s) (JStr (in_hostname input))
          then Inl (DomainExists (in_hostname input))
          else
            (let ident = uuidToString (generateUUID rndId);
                 domain = JObj [(''id'', JStr ident),
                                (''hostname'', JStr (in_hostname input)),
                                (''projectId'', JStr (in_projectId input)),
                                (''sslEnabled'', JBool False),
                                (''createdAt'', JNum now),
                                (''updatedAt'', JNum now)]
             in then_do (map_sum Storage id (storage_write rndRec domain st)) (\<lambda>(res, st1).
                then_do (map_sum Storage id (flush st1)) (\<lambda>st2.
                  Inr (domain,
                       s\<lparr> dstorage := Some st2,
                          domains := map_set (domains s) (get_prop domain ''id'') domain,
                          byHostname := map_set (byHostname s) (get_prop domain ''hostname'') domain \<rparr>)))))"

record domain_update_input =
  up_hostname :: "string option"
  up_projectId :: "string option"
  up_sslEnabled :: "bool option"

text \<open>\<open>{...existing, ...input, updatedAt: Date.now()}\<close>: later properties replace earlier ones in place.\<close>

definition obj_put :: "(string \<times> jsval) list \<Rightarrow> string \<Rightarrow> jsval \<Rightarrow> (string \<times> jsval) list" where
  "obj_put ps k v =
     (if k \<in> fst ` set ps then map (\<lambda>(k', v'). if k' = k then (k', v) else (k', v')) ps
      else ps @ [(k, v)])"

definition own_props :: "jsval \<Rightarrow> (string \<times> jsval) list" where
  "own_props v = (case v of JObj ps \<Rightarrow> ps | _ \<Rightarrow> [])"

definition input_props :: "domain_update_input \<Rightarrow> (string \<times> jsval) list" where
  "input_props input =
     (case up_hostname input of Some h \<Rightarrow> [(''hostname'', JStr h)] | None \<Rightarrow> [])
     @ (case up_projectId input of Some p \<Rightarrow> [(''projectId'', JStr p)] | None \<Rightarrow> [])
     @ (case up_sslEnabled input of Some b \<Rightarrow> [(''sslEnabled'', JBool b)] | None \<Rightarrow> [])"

definition updateDomain ::
  "string \<Rightarrow> domain_update_input \<Rightarrow> number \<Rightarrow> byte list \<Rightarrow> domain_store
     \<Rightarrow> domain_error + (jsval \<times> domain_store)" where
  "updateDomain ident input now rndRec s =
     (case dstorage s of
        None \<Rightarrow> Inl NotInitialized
      | Some st \<Rightarrow>
          (case map_get (domains s) (JStr ident) of
             None \<Rightarrow> Inl (DomainNotFound ident)
           | Some existing \<Rightarrow>
               (let renamed = (case up_hostname input of
                                 Some h \<Rightarrow> h \<noteq> [] \<and> JStr h \<noteq> get_prop existing ''hostname''
                               | None \<Rightarrow> False)
                in if renamed \<and> map_has (byHostname s) (JStr (the (up_hostname input)))
                   then Inl (DomainExists (the (up_hostname input)))
                   else
                     (let hs = (if renamed then map_delete (byHostname s) (get_prop existing ''hostname'')
                                else byHostname s);
                          updated = JObj (obj_put
                                      (foldl (\<lambda>ps (k, v). obj_put ps k v) (own_props existing)
                                         (input_props input))
                                      ''updatedAt'' (JNum now))
                      in then_do (map_sum Storage id (storage_delete ident st)) (\<lambda>(deleted, st1).
                         then_do (map_sum Storage id (storage_write rndRec updated st1)) (\<lambda>(res, st2).
                         then_do (map_sum Storage id (flush st2)) (\<lambda>st3.
                           Inr (updated,
                                s\<lparr> dstorage := Some st3,
                                   domains := map_set (domains s) (get_prop updated ''id'') updated,
                                   byHostname := map_set hs (get_prop updated ''hostname'') updated \<rparr>))))))))"

definition deleteDomain :: "string \<Rightarrow> domain_store \<Rightarrow> domain_error + (bool \<times> domain_store)" where
  "deleteDomain ident s =
     (case dstorage s of
        None \<Rightarrow> Inl NotInitialized
      | Some st \<Rightarrow>
          (case map_get (domains s) (JStr ident) of
             None \<Rightarrow> Inr (False, s)
           | Some existing \<Rightarrow>
               then_do (map_sum Storage id (storage_delete ident st)) (\<lambda>(deleted, st1).
               then_do (map_sum Storage id (flush st1)) (\<lambda>st2.
                 Inr (True,
                      s\<lparr> dstorage := Some st2,
                         domains := map_delete (domains s) (JStr ident),
                         byHostname := map_delete (byHostname s) (get_prop existing ''hostname'') \<rparr>)))))"

text \<open>The content of the domains file, as far as the store has a storage.\<close>

definition domains_file :: "domain_store \<Rightarrow> byte list" where
  "domains_file s = (case dstorage s of Some st \<Rightarrow> disk st | None \<Rightarrow> [])"

text \<open>\<open>domain.id\<close> as the string the callers pass back to \<open>updateDomain\<close> and \<open>deleteDomain\<close>.\<close>

definition get_id :: "jsval \<Rightarrow> string" where
  "get_id d = (case get_prop d ''id'' of JStr s \<Rightarrow> s | _ \<Rightarrow> [])"


subsection \<open>Sample domain\<close>

text \<open>
  The domain \<open>createDomain\<close> makes for the host \<open>a.test\<close> at the time 1700000000000 (which
  is \<open>830078125 \<times> 2^11\<close>) when its id is drawn from \<open>rnd1\<close>, the bytes \<open>encodeValue\<close> gives
  for it, and the storage and store after the record was written under the id drawn from
  \<open>rnd2\<close> and flushed.
\<close>

definition sample_input :: domain_create_input where
  "sample_input = \<lparr> in_hostname = ''a.test'', in_projectId = ''p1'' \<rparr>"

definition now0 :: number where
  "now0 = Finite False 11 830078125"

definition sample_id :: string where
  "sample_id = ''01020304-0506-4708-890a-0b0c0d0e0f10''"

definition sample_domain :: jsval where
  "sample_domain =
     JObj [(''id'', JStr sample_id), (''hostname'', JStr ''a.test''), (''projectId'', JStr ''p1''),
           (''sslEnabled'', JBool False), (''createdAt'', JNum now0), (''updatedAt'', JNum now0)]"

definition domain_payload :: "byte list" where
  "domain_payload =
     [80, 6, 48, 2, 105, 100, 48, 36, 48, 49, 48, 50, 48, 51, 48, 52,
      45, 48, 53, 48, 54, 45, 52, 55, 48, 56, 45, 56, 57, 48, 97, 45,
      48, 98, 48, 99, 48, 100, 48, 101, 48, 102, 49, 48, 48, 8, 104,
      111, 115, 116, 110, 97, 109, 101, 48, 6, 97, 46, 116, 101, 115,
      116, 48, 9, 112, 114, 111, 106, 101, 99, 116, 73, 100, 48, 2,
      112, 49, 48, 10, 115, 115, 108, 69, 110, 97, 98, 108, 101, 100,
      3, 48, 9, 99, 114, 101, 97, 116, 101, 100, 65, 116, 33, 66, 120,
      188, 254, 86, 128, 0, 0, 48, 9, 117, 112, 100, 97, 116, 101, 100,
      65, 116, 33, 66, 120, 188, 254, 86, 128, 0, 0]"

definition domain_loc :: location where
  "domain_loc = \<lparr>loc_offset = 32, loc_size = 130, loc_checksum = 0x62818406\<rparr>"

definition domain_storage :: storage where
  "domain_storage =
     \<lparr> disk = [68, 79, 87, 69, 1, 0, 0, 0, 0, 0, 0, 0, 0, 0, 0, 182, 0, 0, 0, 0, 0, 0, 0, 182,
               0, 0, 0, 0, 0, 0, 0, 1]
              @ (id2 @ [0, 0, 0, 130] @ domain_payload)
              @ (id2 @ [0, 0, 0, 0, 0, 0, 0, 32, 0, 0, 0, 130, 98, 129, 132, 6]),
       hdr = \<lparr> magic = ''DOWE'', versionMajor = 1, versionMinor = 0, flags = 0,
               indexOffset = 182, hdr_dataOffset = 182, recordCount = 1 \<rparr>,
       index = \<lparr> root = Node [id2] [domain_loc] None, order = 64, tsize = 1 \<rparr>,
       dataOffset = 182 \<rparr>"

definition created_store :: domain_store where
  "created_store =
     \<lparr> dstorage = Some domain_storage,
       domains = [(JStr sample_id, sample_domain)],
       byHostname = [(JStr ''a.test'', sample_domain)] \<rparr>"

definition deleted_store :: domain_store where
  "deleted_store = \<lparr> dstorage = Some domain_storage, domains = [], byHostname = [] \<rparr>"


section \<open>Request router: the forwarding headers (proxyRouter)\<close>

text \<open>
  The router works on a fetch-API \<open>Request\<close>. Its \<open>Headers\<close> object keeps one value per
  name and compares names without regard to ASCII case; it is modelled as an association
  list whose names are stored lower-cased. \<open>new URL(request.url)\<close> is modelled by the
  components the router reads from it. The address of the direct socket peer is not part
  of a \<open>Request\<close>; it is a separate input of the connection, kept beside the request.
\<close>

type_synonym headers = "(string \<times> string) list"

record url =
  protocol :: string
  host :: string
  hostname :: string
  pathname :: string
  search :: string

record request =
  req_headers :: headers
  req_url :: url
  req_method :: string

definition lowerc :: "char \<Rightarrow> char" where
  "lowerc c = (let n = (of_char c :: nat) in if 65 \<le> n \<and> n \<le> 90 then char_of (n + 32) else c)"

definition headers_get :: "headers \<Rightarrow> string \<Rightarrow> string option" where
  "headers_get hs name = map_of hs (map lowerc name)"

definition headers_set :: "headers \<Rightarrow> string \<Rightarrow> string \<Rightarrow> headers" where
  "headers_set hs name v =
     filter (\<lambda>(n, _). n \<noteq> map lowerc name) hs @ [(map lowerc name, v)]"

text \<open>\<open>String.prototype.trim\<close> on a byte string: the white space of ECMAScript that fits a byte.\<close>

definition is_space :: "char \<Rightarrow> bool" where
  "is_space c = ((of_char c :: nat) \<in> {9, 10, 11, 12, 13, 32, 160})"

definition trim :: "string \<Rightarrow> string" where
  "trim s = rev (dropWhile is_space (rev (dropWhile is_space s)))"

text \<open>\<open>s.split(",")[0]\<close>: the text before the first comma (all of \<open>s\<close> when it has none).\<close>

definition split_first :: "string \<Rightarrow> string" where
  "split_first s = takeWhile (\<lambda>c. c \<noteq> CHR '','') s"

definition getClientIP :: "request \<Rightarrow> string" where
  "getClientIP r =
     (case headers_get (req_headers r) ''x-forwarded-for'' of
        None \<Rightarrow> ''unknown''
      | Some forwardedFor \<Rightarrow>
          if forwardedFor \<noteq> [] then trim (split_first forwardedFor) else ''unknown'')"

text \<open>The headers \<open>forwardToUnixSocket\<close> sends to the backend.\<close>

definition forwardHeaders :: "request \<Rightarrow> headers" where
  "forwardHeaders r =
     (let h0 = req_headers r;
          h1 = headers_set h0 ''X-Forwarded-For'' (getClientIP r);
          h2 = headers_set h1 ''X-Forwarded-Proto'' (butlast (protocol (req_url r)));
          h3 = headers_set h2 ''X-Forwarded-Host'' (host (req_url r))
      in h3)"

text \<open>
  The claim's rule for the client address, in the spec's words: the leftmost entry of the
  inbound header when present, else the socket peer, else \<open>"unknown"\<close>.
\<close>

definition claimed_client_ip :: "string option \<Rightarrow> string option \<Rightarrow> string" where
  "claimed_client_ip inbound peer =
     (case inbound of
        Some v \<Rightarrow> split_first v
      | None \<Rightarrow> (case peer of Some p \<Rightarrow> p | None \<Rightarrow> ''unknown''))"

definition plain_request :: request where
  "plain_request =
     \<lparr> req_headers = [(''host'', ''a.test''), (''accept'', ''*/*'')],
       req_url = \<lparr> protocol = ''https:'', host = ''a.test'', hostname = ''a.test'',
                   pathname = ''/'', search = '''' \<rparr>,
       req_method = ''GET'' \<rparr>"


section \<open>Process supervisor: starting a project (processManager)\<close>

datatype project_status = Running | Stopped | Errored | Starting

record project =
  proj_id :: string
  binaryPath :: string
  socketPath :: string
  status :: project_status
  pid :: "nat option"

record process_info =
  pi_projectId :: string
  pi_pid :: nat
  pi_socketPath :: string

text \<open>
  The module-level state: the project store of projectLoader, the handle table of
  processManager, the warnings and errors written to the log, and the restart timers
  that \<open>handleProcessExit\<close> has set and that have not fired yet.

  The environment of one call of \<open>startProject\<close>:
  \<^item> \<open>spawn\<close>: the pid of the child \<open>Bun.spawn\<close> starts, or \<open>None\<close> when \<open>Bun.spawn\<close> throws;
  \<^item> \<open>probe n\<close>: whether the n-th \<open>access(socketPath)\<close> of \<open>waitForSocket\<close> succeeds;
  \<^item> \<open>exitSlot\<close>: the await of \<open>waitForSocket\<close> during which the child exits and the
    \<open>onExit\<close> callback registered by \<open>startProject\<close> runs, if the child exits during the
    call at all. Slot 0 is the \<open>await import\<close>, slot \<open>1 + 2n\<close> the n-th \<open>await access\<close>
    and slot \<open>2 + 2n\<close> the sleep after it. The other awaits of \<open>startProject\<close> either
    precede the spawn or resume without returning to the event loop.
  Other requests and timers that run while the call is suspended are not part of the call
  and are not modelled; a restart timer set by the callback stays pending.
  A call returns the state it leaves behind together with its result or its error.
\<close>

record supervisor =
  projects :: "string \<rightharpoonup> project"
  processes :: "string \<rightharpoonup> process_info"
  warnings :: "string list"
  errors :: "string list"
  restartTimers :: "string list"

datatype start_error = ProjectNotFound | AlreadyRunning | SpawnFailed

definition updateProjectStatus ::
  "string \<Rightarrow> project_status \<Rightarrow> nat option \<Rightarrow> supervisor \<Rightarrow> start_error + supervisor" where
  "updateProjectStatus i st p s =
     (case projects s i of
        None \<Rightarrow> Inl ProjectNotFound
      | Some pr \<Rightarrow> Inr (s\<lparr>projects := (projects s)(i \<mapsto> pr\<lparr>status := st, pid := p\<rparr>)\<rparr>))"

text \<open>
  \<open>handleProcessExit\<close>: nothing without a handle; else a warning, the handle removed, the
  status set to error (a failure of that update is logged) and a restart timer set.
\<close>

definition handleProcessExit :: "string \<Rightarrow> supervisor \<Rightarrow> supervisor" where
  "handleProcessExit projectId s =
     (case processes s projectId of
        None \<Rightarrow> s
      | Some processInfo \<Rightarrow>
          (let s1 = s\<lparr>warnings := warnings s @ [''Process exited unexpectedly''],
                       processes := (processes s)(projectId := None)\<rparr>;
               s2 = (case updateProjectStatus projectId Errored None s1 of
                       Inl e \<Rightarrow> s1\<lparr>errors := errors s1 @ [''Failed to update project status'']\<rparr>
                     | Inr s' \<Rightarrow> s')
           in s2\<lparr>restartTimers := restartTimers s2 @ [projectId]\<rparr>))"

definition exit_in_slot :: "nat option \<Rightarrow> nat \<Rightarrow> string \<Rightarrow> supervisor \<Rightarrow> supervisor" where
  "exit_in_slot exitSlot k projectId s =
     (if exitSlot = Some k then handleProcessExit projectId s else s)"










subsection \<open>The B-tree index\<close>

text \<open>
  C3 fails on the code. \<open>splitLeaf\<close> promotes the first key of the right half and also
  leaves it in the right leaf, where \<open>splitInternal\<close> removes the key it promotes. In a
  tree of order 4 filled with the keys 0 to 5 the keys 2 and 4 are therefore listed twice
  by \<open>entries()\<close>; and \<open>delete\<close> of key 2 reports success and lowers \<open>size\<close> to 5, while
  \<open>get\<close> still finds key 2 and all six keys are still listed.
\<close>

theorem C3_leaf_split_duplicates_key:
  "map_sum id (\<lambda>t. (map snd (bt_entries t), tsize t)) six_keys
     = Inr ([0, 1, 2, 2, 3, 4, 4, 5], 6)
   \<and> map_sum id (\<lambda>(t', found). (found, bt_get t' (sample_key 2), tsize t', map snd (bt_entries t')))
       (then_do six_keys (\<lambda>t. bt_delete t (sample_key 2)))
     = Inr (True, Some 2, 5, [0, 1, 2, 3, 4, 4, 5])"
  by code_simp


subsection \<open>The tag of a number\<close>

lemma bits_le_iff: "bits m \<le> n \<longleftrightarrow> m < 2 ^ n"
proof (induction m arbitrary: n rule: bits.induct)
  case (1 m)
  show ?case
  proof (cases "m = 0")
    case True
    then show ?thesis by (simp add: bits.simps)
  next
    case False
    show ?thesis
    proof (cases n)
      case 0
      with False show ?thesis by (simp add: bits.simps [of m])
    next
      case (Suc k)
      from "1.IH" [OF False, of k] False Suc show ?thesis
        by (subst bits.simps) (simp add: div_less_iff_less_mult mult.commute)
    qed
  qed
qed

lemma make_finite_exponent:
  "r \<noteq> 0 \<Longrightarrow> \<exists>e' m'. make_finite s q r = Finite s e' m' \<and> q \<le> e'"
  by (simp add: make_finite_def split: prod.splits)

lemma fround_exact_iff:
  "strict_eq (fround (Finite s e m)) (Finite s e m) \<longleftrightarrow> single_exact (Finite s e m)"
proof -
  define E where "E = e + int (bits m) - 1"
  define q where "q = max (E - 23) (- 149)"
  have b: "int (bits m) \<le> 24 \<longleftrightarrow> m < 2 ^ 24"
    using bits_le_iff [of m 24] by simp
  show ?thesis
  proof (cases "E > 127")
    case True
    then show ?thesis
      by (simp add: fround_def Let_def E_def strict_eq_def single_exact_def)
  next
    case False
    show ?thesis
    proof (cases "q \<le> e")
      case True
      with False b show ?thesis
        by (simp add: fround_def Let_def E_def [symmetric] q_def [symmetric] strict_eq_def
            single_exact_def)
           (auto simp: E_def q_def)
    next
      case q: False
      have n: "\<not> single_exact (Finite s e m)"
        using q b by (auto simp: single_exact_def q_def E_def)
      have "\<not> strict_eq (make_finite s q r) (Finite s e m)" if "r \<noteq> 0" for r
        using make_finite_exponent [OF that, of s q] q by (auto simp: strict_eq_def)
      with False q n show ?thesis
        by (simp add: fround_def Let_def E_def [symmetric] q_def [symmetric])
           (auto simp: strict_eq_def)
    qed
  qed
qed

text \<open>
  C5 as stated fails: the integer \<open>2^31\<close> does not fit 32 bits, and \<open>encodeNumber\<close> writes
  it with the tag \<open>FLOAT64\<close> (\<open>0x21\<close>) and the eight bytes of the double, not with the
  signed 64-bit tag \<open>INT64\<close> (\<open>0x13\<close>), which it never emits.
\<close>

theorem C5_large_integer_counterexample:
  "isInteger (Finite False 31 1) \<and> number_int (Finite False 31 1) = 2147483648
   \<and> encodeNumber (Finite False 31 1) = [0x21, 0x41, 0xE0, 0, 0, 0, 0, 0, 0]"
  by code_simp

text \<open>
  C5, amended. For every integer-valued number the encoder emits the smallest of the
  signed widths 8, 16 and 32 that fits the value (\<open>INT8\<close>, \<open>INT16\<close>, \<open>INT32\<close>), and
  \<open>FLOAT64\<close> with the eight bytes of the double for the integers that fit none of them;
  for every other number it emits \<open>FLOAT32\<close> if the number is a value of single
  precision (which includes the two infinities), and else \<open>FLOAT64\<close> (which includes
  \<open>NaN\<close>).
\<close>

theorem C5_number_tags:
  "encodeNumber v =
     (if isInteger v
      then (if fits_signed 8 (number_int v) then 0x10 # int_bytes 1 (number_int v)
            else if fits_signed 16 (number_int v) then 0x11 # int_bytes 2 (number_int v)
            else if fits_signed 32 (number_int v) then 0x12 # int_bytes 4 (number_int v)
            else 0x21 # writeFloat64 v)
      else if single_exact v then 0x20 # writeFloat32 v
      else 0x21 # writeFloat64 v)"
proof -
  have i: "(let n = k in if - 128 \<le> n \<and> n \<le> 127 then a n
                 else if - 32768 \<le> n \<and> n \<le> 32767 then b n
                 else if - 2147483648 \<le> n \<and> n \<le> 2147483647 then c n else d)
           = (if fits_signed 8 k then a k else if fits_signed 16 k then b k
              else if fits_signed 32 k then c k else d)"
    for k :: int and a b c :: "int \<Rightarrow> byte list" and d
    by (simp add: fits_signed_def Let_def)
  have f: "strict_eq (fround v) v = single_exact v"
  proof (cases v)
    case (Finite s e m)
    then show ?thesis by (simp add: fround_exact_iff)
  qed (simp_all add: fround_def strict_eq_def single_exact_def)
  show ?thesis
    unfolding encodeNumber_def i f by (rule refl)
qed


subsection \<open>Evaluation helpers\<close>

lemma be_bytes_unfold:
  "be_bytes 1 n = [of_nat n]"
  "be_bytes 2 n = [of_nat (n div 256), of_nat n]"
  "be_bytes 4 n = [of_nat (n div 256 ^ 3), of_nat (n div 256 ^ 2), of_nat (n div 256), of_nat n]"
  "be_bytes 8 n = [of_nat (n div 256 ^ 7), of_nat (n div 256 ^ 6), of_nat (n div 256 ^ 5),
                   of_nat (n div 256 ^ 4), of_nat (n div 256 ^ 3), of_nat (n div 256 ^ 2),
                   of_nat (n div 256), of_nat n]"
proof -
  have n: "(1::nat) = Suc 0" "(2::nat) = Suc (Suc 0)" "(4::nat) = Suc (Suc (Suc (Suc 0)))"
    "(8::nat) = Suc (Suc (Suc (Suc (Suc (Suc (Suc (Suc 0)))))))"
    by simp_all
  show "be_bytes 1 n = [of_nat n]" unfolding n(1) by simp
  show "be_bytes 2 n = [of_nat (n div 256), of_nat n]" unfolding n(2) by simp
  show "be_bytes 4 n = [of_nat (n div 256 ^ 3), of_nat (n div 256 ^ 2), of_nat (n div 256), of_nat n]"
    unfolding n(3) be_bytes.simps by simp
  show "be_bytes 8 n = [of_nat (n div 256 ^ 7), of_nat (n div 256 ^ 6), of_nat (n div 256 ^ 5),
                   of_nat (n div 256 ^ 4), of_nat (n div 256 ^ 3), of_nat (n div 256 ^ 2),
                   of_nat (n div 256), of_nat n]"
    unfolding n(4) be_bytes.simps by simp
qed

lemma CRC32_TABLE_unfold:
  "CRC32_TABLE i = crc_round (crc_round (crc_round (crc_round (crc_round (crc_round
     (crc_round (crc_round (of_nat i))))))))"
  by (simp add: CRC32_TABLE_def eval_nat_numeral)

lemmas crc_eval = crc32_def crc_step_def CRC32_TABLE_unfold crc_round_def

lemma crc32_samples: "crc32 [0] = 0xd202ef8d" "crc32 [2] = 0x3c0c8ea1" "crc32 [3] = 0x4b0bbe37"
  by (simp_all add: crc_eval)

lemma crc32_check_value: "crc32 [49, 50, 51, 52, 53, 54, 55, 56, 57] = 0xcbf43926"
  by (simp add: crc_eval)

lemma generateUUID_samples: "generateUUID rnd1 = id1" "generateUUID rnd2 = id2"
  by code_simp+

lemma length_generateUUID [simp]: "length (generateUUID rnd) = 16"
  by (simp add: generateUUID_def UUID_SIZE_def Let_def)

lemma length_be_bytes [simp]: "length (be_bytes k n) = k"
  by (induction k) auto

lemma then_do_Inr_iff:
  "then_do r f = Inr y \<longleftrightarrow> (\<exists>x. r = Inr x \<and> f x = Inr y)"
  by (cases r) (auto simp: then_do_def)

lemma then_do_Inr [simp]: "then_do (Inr x) f = f x"
  by (simp add: then_do_def)

lemma then_do_Inl [simp]: "then_do (Inl e) f = Inl e"
  by (simp add: then_do_def)

lemma map_sum_Inr_iff: "map_sum f g r = Inr y \<longleftrightarrow> (\<exists>x. r = Inr x \<and> y = g x)"
  by (cases r) auto

subsection \<open>Storage: write\<close>

lemma storage_write_Inr:
  assumes "storage_write rnd v s = Inr (res, s')"
  obtains payload ix where
    "encodeValue v = Inr payload"
    "bt_set (index s) (generateUUID rnd)
       \<lparr> loc_offset = dataOffset s, loc_size = length payload, loc_checksum = crc32 payload \<rparr> = Inr ix"
    "res = \<lparr> w_id = uuidToString (generateUUID rnd), w_offset = dataOffset s, w_size = length payload \<rparr>"
    "s' = s\<lparr> disk := rewrite_from (dataOffset s) (generateUUID rnd @ be_bytes 4 (length payload) @ payload) (disk s),
              index := ix, dataOffset := dataOffset s + (20 + length payload),
              hdr := (hdr s)\<lparr> recordCount := recordCount (hdr s) + 1,
                               hdr_dataOffset := dataOffset s + (20 + length payload) \<rparr> \<rparr>"
  using assms
  unfolding storage_write_def Let_def then_do_Inr_iff map_sum_Inr_iff
  by (auto simp: add.assoc)

lemma storage_write_eval:
  assumes "encodeValue v = Inr payload"
    and "bt_set (index s) (generateUUID rnd)
       \<lparr> loc_offset = dataOffset s, loc_size = length payload, loc_checksum = crc32 payload \<rparr> = Inr ix"
  shows "storage_write rnd v s = Inr
    (\<lparr> w_id = uuidToString (generateUUID rnd), w_offset = dataOffset s, w_size = length payload \<rparr>,
     s\<lparr> disk := rewrite_from (dataOffset s) (generateUUID rnd @ be_bytes 4 (length payload) @ payload) (disk s),
              index := ix, dataOffset := dataOffset s + (20 + length payload),
              hdr := (hdr s)\<lparr> recordCount := recordCount (hdr s) + 1,
                               hdr_dataOffset := dataOffset s + (20 + length payload) \<rparr> \<rparr>)"
  using assms by (simp add: storage_write_def Let_def add.assoc)

lemma storage_delete_disk:
  "storage_delete i s = Inr (b, s') \<Longrightarrow> disk s' = disk s"
  unfolding storage_delete_def then_do_Inr_iff map_sum_Inr_iff
  by auto

text \<open>The sample storages are what the operations produce.\<close>

lemma created_storage:
  "createStorage None = Inr
     \<lparr> disk = [68, 79, 87, 69, 1, 0, 0, 0, 0, 0, 0, 0, 0, 0, 0, 0, 0, 0, 0, 0, 0, 0, 0, 32,
                0, 0, 0, 0, 0, 0, 0, 0],
       hdr = \<lparr> magic = ''DOWE'', versionMajor = 1, versionMinor = 0, flags = 0,
               indexOffset = 0, hdr_dataOffset = 32, recordCount = 0 \<rparr>,
       index = \<lparr> root = Node [] [] None, order = 64, tsize = 0 \<rparr>,
       dataOffset = 32 \<rparr>"
  by code_simp

lemma two_records_reached:
  "storage_write rnd2 (JBool True) flushed_one
     = Inr (\<lparr> w_id = uuidToString id2, w_offset = 53, w_size = 1 \<rparr>, two_records)"
proof -
  have e: "encodeValue (JBool True) = Inr [2]" by simp
  have b: "bt_set (index flushed_one) (generateUUID rnd2)
       \<lparr> loc_offset = dataOffset flushed_one, loc_size = length [2::byte], loc_checksum = crc32 [2] \<rparr>
       = Inr (index two_records)"
    unfolding generateUUID_samples crc32_samples by code_simp
  have r: "(\<lparr> w_id = uuidToString id2, w_offset = dataOffset flushed_one, w_size = length [2::byte] \<rparr>,
     flushed_one\<lparr> disk := rewrite_from (dataOffset flushed_one) (id2 @ be_bytes 4 (length [2::byte]) @ [2]) (disk flushed_one),
              index := index two_records, dataOffset := dataOffset flushed_one + (20 + length [2::byte]),
              hdr := (hdr flushed_one)\<lparr> recordCount := recordCount (hdr flushed_one) + 1,
                               hdr_dataOffset := dataOffset flushed_one + (20 + length [2::byte]) \<rparr> \<rparr>)
      = (\<lparr> w_id = uuidToString id2, w_offset = 53, w_size = 1 \<rparr>, two_records)"
    by code_simp
  show ?thesis
    using storage_write_eval [OF e b] unfolding generateUUID_samples r .
qed

text \<open>
  C10: a successful \<open>write\<close> makes the file consist of the first \<open>dataOffset\<close> bytes of
  the old content (padded with zeros if the file was shorter) followed by exactly the new
  record: the 16-byte id, the 4-byte size and the payload. So every byte below \<open>dataOffset\<close>
  is as before, the file ends at \<open>dataOffset + 20 + size\<close>, whatever followed \<open>dataOffset\<close>
  (an index block of an earlier \<open>flush\<close>) is gone, and \<open>delete\<close> does not touch the file
  afterwards (\<open>read\<close> returns no state at all).
\<close>

theorem C10_write_frame:
  assumes "storage_write rnd v s = Inr (res, s')"
  shows "\<exists>payload. encodeValue v = Inr payload \<and> w_size res = length payload
           \<and> disk s' = take (dataOffset s) (disk s) @ replicate (dataOffset s - length (disk s)) 0
                          @ (generateUUID rnd @ be_bytes 4 (length payload) @ payload)
           \<and> length (disk s') = dataOffset s + 20 + w_size res
           \<and> (\<forall>i. i < dataOffset s \<and> i < length (disk s) \<longrightarrow> disk s' ! i = disk s ! i)
           \<and> (\<forall>i b s''. storage_delete i s' = Inr (b, s'') \<longrightarrow> disk s'' = disk s')"
proof -
  from assms obtain payload ix where
    enc: "encodeValue v = Inr payload"
    and res: "res = \<lparr> w_id = uuidToString (generateUUID rnd), w_offset = dataOffset s, w_size = length payload \<rparr>"
    and s': "s' = s\<lparr> disk := rewrite_from (dataOffset s) (generateUUID rnd @ be_bytes 4 (length payload) @ payload) (disk s),
              index := ix, dataOffset := dataOffset s + (20 + length payload),
              hdr := (hdr s)\<lparr> recordCount := recordCount (hdr s) + 1,
                               hdr_dataOffset := dataOffset s + (20 + length payload) \<rparr> \<rparr>"
    by (rule storage_write_Inr)
  have d: "disk s' = take (dataOffset s) (disk s) @ replicate (dataOffset s - length (disk s)) 0
                          @ (generateUUID rnd @ be_bytes 4 (length payload) @ payload)"
    by (simp add: s' rewrite_from_def)
  have len: "length (disk s') = dataOffset s + 20 + w_size res"
    unfolding d res by (simp add: min_def)
  have pre: "\<forall>i. i < dataOffset s \<and> i < length (disk s) \<longrightarrow> disk s' ! i = disk s ! i"
    unfolding d by (simp add: nth_append)
  have del: "\<forall>i b s''. storage_delete i s' = Inr (b, s'') \<longrightarrow> disk s'' = disk s'"
    using storage_delete_disk by blast
  from enc res d len pre del show ?thesis by auto
qed

theorem C10_write_frame_witness:
  "storage_write rnd2 (JBool True) flushed_one
     = Inr (\<lparr> w_id = uuidToString id2, w_offset = 53, w_size = 1 \<rparr>, two_records)
   \<and> length (disk flushed_one) = 85 \<and> dataOffset flushed_one = 53
   \<and> length (disk two_records) = 53 + 20 + 1
   \<and> take 53 (disk two_records) = take 53 (disk flushed_one)
   \<and> drop 53 (disk two_records) = id2 @ [0, 0, 0, 1] @ [2]"
proof -
  have l: "length (disk flushed_one) = 85" "dataOffset flushed_one = 53"
    "take 53 (disk flushed_one) = header_one @ record_one"
    "length (header_one @ record_one) = 53"
    by code_simp+
  from C10_write_frame [OF two_records_reached] obtain payload where
    p: "encodeValue (JBool True) = Inr payload"
    and d: "disk two_records = take (dataOffset flushed_one) (disk flushed_one)
              @ replicate (dataOffset flushed_one - length (disk flushed_one)) 0
              @ (generateUUID rnd2 @ be_bytes 4 (length payload) @ payload)"
    and n: "length (disk two_records)
              = dataOffset flushed_one + 20 + w_size \<lparr> w_id = uuidToString id2, w_offset = 53, w_size = 1 \<rparr>"
    by blast
  from p have payload: "payload = [2]" by simp
  have d': "disk two_records = (header_one @ record_one) @ (id2 @ [0, 0, 0, 1] @ [2])"
    using d unfolding l payload generateUUID_samples by (simp add: be_bytes_unfold)
  have "take 53 (disk two_records) = take 53 (disk flushed_one)"
    unfolding d' l(3) using l(4) by simp
  moreover have "drop 53 (disk two_records) = id2 @ [0, 0, 0, 1] @ [2]"
    unfolding d' using l(4) by simp
  ultimately show ?thesis
    using two_records_reached n l(1,2) by simp
qed

subsection \<open>Storage: read\<close>

text \<open>
  C7: \<open>read(id)\<close> returns \<open>null\<close> when the parsed id is not in the index. When it is, the
  payload is the (at most) \<open>size\<close> bytes of the file from \<open>offset + 20\<close>; the result is the
  error \<open>Corruption\<close> exactly when the CRC-32 of those bytes differs from the stored
  checksum, and otherwise what \<open>decodeValue\<close> makes of them (the decoded value, or the
  decoder's own error for bytes that are no encoding).
\<close>

theorem C7_read:
  "(bt_get (index s) (stringToUUID i) = None \<longrightarrow> storage_read i s = Inr JNull)
   \<and> (\<forall>loc. bt_get (index s) (stringToUUID i) = Some loc \<longrightarrow>
         (storage_read i s = Inl Corruption
            \<longleftrightarrow> crc32 (take (loc_size loc) (drop (loc_offset loc + 20) (disk s))) \<noteq> loc_checksum loc)
         \<and> (crc32 (take (loc_size loc) (drop (loc_offset loc + 20) (disk s))) = loc_checksum loc
              \<longrightarrow> storage_read i s
                    = map_sum Decode id (decode (take (loc_size loc) (drop (loc_offset loc + 20) (disk s))))))"
proof -
  have no_corruption: "map_sum Decode id r \<noteq> Inl Corruption" for r :: "dec_error + jsval"
    by (cases r) auto
  show ?thesis
    by (auto simp: storage_read_def Let_def slice_def UUID_SIZE_def no_corruption add.commute)
qed

theorem C7_read_witness:
  "storage_read ''00000000-0000-0000-0000-000000000000'' two_records = Inr JNull
   \<and> storage_read (uuidToString id2) two_records = Inr (JBool True)
   \<and> storage_read (uuidToString id2) damaged = Inl Corruption"
proof -
  have k: "bt_get (index two_records) (stringToUUID ''00000000-0000-0000-0000-000000000000'') = None"
    "bt_get (index two_records) (stringToUUID (uuidToString id2)) = Some loc2"
    "bt_get (index damaged) (stringToUUID (uuidToString id2)) = Some loc2"
    by code_simp+
  have p: "take (loc_size loc2) (drop (loc_offset loc2 + 20) (disk two_records)) = [2]"
    "take (loc_size loc2) (drop (loc_offset loc2 + 20) (disk damaged)) = [3]"
    by code_simp+
  have c: "crc32 [2] = loc_checksum loc2" "crc32 [3] \<noteq> loc_checksum loc2"
    by (simp_all add: crc32_samples loc2_def)
  have d: "decode [2] = Inr (JBool True)"
    by code_simp
  from C7_read [of two_records "''00000000-0000-0000-0000-000000000000''"] k(1)
  have 1: "storage_read ''00000000-0000-0000-0000-000000000000'' two_records = Inr JNull"
    by blast
  from C7_read [of two_records "uuidToString id2"] k(2) p(1) c(1) d
  have 2: "storage_read (uuidToString id2) two_records = Inr (JBool True)"
    by simp
  from C7_read [of damaged "uuidToString id2"] k(3) p(2) c(2)
  have 3: "storage_read (uuidToString id2) damaged = Inl Corruption"
    by simp
  from 1 2 3 show ?thesis by simp
qed


subsection \<open>Storage: compact\<close>

lemma fresh_storage_created: "createStorage None = Inr fresh_storage"
  by code_simp

lemma copy_write:
  "storage_write (rnds 0) JNull fresh_storage
     = Inr (\<lparr> w_id = uuidToString id3, w_offset = 32, w_size = 1 \<rparr>, copied_one)"
proof -
  have g: "generateUUID (rnds 0) = id3" by code_simp
  have e: "encodeValue JNull = Inr [0]" by simp
  have b: "bt_set (index fresh_storage) (generateUUID (rnds 0))
       \<lparr> loc_offset = dataOffset fresh_storage, loc_size = length [0::byte], loc_checksum = crc32 [0] \<rparr>
       = Inr (index copied_one)"
    unfolding g crc32_samples by code_simp
  have r: "(\<lparr> w_id = uuidToString id3, w_offset = dataOffset fresh_storage, w_size = length [0::byte] \<rparr>,
     fresh_storage\<lparr> disk := rewrite_from (dataOffset fresh_storage) (id3 @ be_bytes 4 (length [0::byte]) @ [0]) (disk fresh_storage),
              index := index copied_one, dataOffset := dataOffset fresh_storage + (20 + length [0::byte]),
              hdr := (hdr fresh_storage)\<lparr> recordCount := recordCount (hdr fresh_storage) + 1,
                               hdr_dataOffset := dataOffset fresh_storage + (20 + length [0::byte]) \<rparr> \<rparr>)
      = (\<lparr> w_id = uuidToString id3, w_offset = 32, w_size = 1 \<rparr>, copied_one)"
    by code_simp
  show ?thesis
    using storage_write_eval [OF e b] unfolding g r .
qed

lemma compact_flushed_one:
  "compact None rnds flushed_one
     = openStorage True True (flushed_one\<lparr> disk := header_one @ (id3 @ [0, 0, 0, 1, 0])
          @ (id3 @ [0, 0, 0, 0, 0, 0, 0, 32, 0, 0, 0, 1, 210, 2, 239, 141]) \<rparr>)"
proof -
  have en: "bt_entries (index flushed_one) = [(id1, loc1)]" by code_simp
  have sl: "slice (loc_offset loc1 + UUID_SIZE + 4)
              (loc_offset loc1 + UUID_SIZE + 4 + loc_size loc1)
              (disk flushed_one) = [0]"
    by code_simp
  have de: "decode [0] = Inr JNull" by code_simp
  have cp: "copyRecords (disk flushed_one) rnds 0 [(id1, loc1)] fresh_storage = Inr copied_one"
    by (simp add: Let_def sl de copy_write del: storage_write_def)
  have fl: "then_do (flush copied_one) close
     = Inr (copied_one\<lparr> disk := header_one @ (id3 @ [0, 0, 0, 1, 0])
          @ (id3 @ [0, 0, 0, 0, 0, 0, 0, 32, 0, 0, 0, 1, 210, 2, 239, 141]),
          hdr := (hdr copied_one)\<lparr> indexOffset := 53 \<rparr>,
          index := \<lparr> root = Node [] [] None, order = 64, tsize = 0 \<rparr> \<rparr>)"
    by code_simp
  show ?thesis
    unfolding compact_def Let_def en fresh_storage_created then_do_Inr cp
    using fl by (cases "flush copied_one") (auto simp: then_do_def)
qed

text \<open>
  C6 fails on the code. \<open>compact\<close> ends with \<open>this.open()\<close>, which loads the index block
  of the compacted file into the index the object already has; the index is never
  cleared (as \<open>close\<close> does). On the storage with the one live record \<open>id1\<close>, the compacted
  file holds one record, under the new id \<open>id3\<close>, and its index block is that one entry;
  but the in-memory index afterwards lists \<open>id1\<close> and \<open>id3\<close>, still finds \<open>id1\<close>, and
  has size 2 beside a record count of 1.
\<close>

theorem C6_compact_keeps_old_ids:
  "map_sum id
     (\<lambda>s. (map fst (bt_entries (index s)), bt_get (index s) id1, tsize (index s),
           recordCount (hdr s), drop 53 (disk s)))
     (compact None rnds flushed_one)
   = Inr ([id1, id3], Some loc1, 2, 1, indexEntry (id3, loc1))"
  unfolding compact_flushed_one by code_simp


subsection \<open>The domain collection\<close>

lemma storage_read_eval:
  assumes "bt_get (index s) (stringToUUID i) = Some loc"
    and "slice (loc_offset loc + UUID_SIZE + 4) (loc_offset loc + UUID_SIZE + 4 + loc_size loc) (disk s) = payload"
    and "crc32 payload = loc_checksum loc"
    and "decode payload = Inr v"
  shows "storage_read i s = Inr v"
  using assms by (simp add: storage_read_def Let_def)

lemma domain_payload_encoded: "encodeValue sample_domain = Inr domain_payload"
  by code_simp

lemma domain_payload_decoded: "decode domain_payload = Inr sample_domain"
  by code_simp

lemma domain_payload_crc: "crc32 domain_payload = 0x62818406"
  unfolding domain_payload_def by (simp add: crc_eval)

lemma init_without_file:
  "initDomainStorage None = Inr \<lparr> dstorage = Some fresh_storage, domains = [], byHostname = [] \<rparr>"
  by code_simp

lemma domain_written_flushed:
  "then_do (storage_write rnd2 sample_domain fresh_storage) (\<lambda>(res, st1). flush st1)
     = Inr domain_storage"
proof -
  have b: "bt_set (index fresh_storage) (generateUUID rnd2)
       \<lparr> loc_offset = dataOffset fresh_storage, loc_size = length domain_payload,
         loc_checksum = crc32 domain_payload \<rparr>
       = Inr (index domain_storage)"
    unfolding generateUUID_samples domain_payload_crc by code_simp
  have f: "flush (fresh_storage\<lparr> disk := rewrite_from (dataOffset fresh_storage)
                     (id2 @ be_bytes 4 (length domain_payload) @ domain_payload) (disk fresh_storage),
              index := index domain_storage,
              dataOffset := dataOffset fresh_storage + (20 + length domain_payload),
              hdr := (hdr fresh_storage)\<lparr> recordCount := recordCount (hdr fresh_storage) + 1,
                       hdr_dataOffset := dataOffset fresh_storage + (20 + length domain_payload) \<rparr> \<rparr>)
           = Inr domain_storage"
    by code_simp
  show ?thesis
    unfolding storage_write_eval [OF domain_payload_encoded b] generateUUID_samples
    by (simp add: f)
qed

lemma sample_created:
  "createDomain sample_input now0 rnd1 rnd2
     \<lparr> dstorage = Some fresh_storage, domains = [], byHostname = [] \<rparr>
   = Inr (sample_domain, created_store)"
proof -
  have d: "JObj [(''id'', JStr (uuidToString (generateUUID rnd1))),
                 (''hostname'', JStr (in_hostname sample_input)),
                 (''projectId'', JStr (in_projectId sample_input)),
                 (''sslEnabled'', JBool False), (''createdAt'', JNum now0),
                 (''updatedAt'', JNum now0)] = sample_domain"
    by code_simp
  have w: "then_do (map_sum Storage id (storage_write rnd2 sample_domain fresh_storage))
             (\<lambda>(res, st1). then_do (map_sum Storage id (flush st1)) f)
           = f domain_storage" for f :: "storage \<Rightarrow> domain_error + (jsval \<times> domain_store)"
    using domain_written_flushed
    by (cases "storage_write rnd2 sample_domain fresh_storage")
       (auto simp: then_do_def split: sum.splits prod.splits)
  have m: "\<not> map_has [] (JStr (in_hostname sample_input))"
    "\<lparr> dstorage = Some domain_storage,
       domains = map_set [] (get_prop sample_domain ''id'') sample_domain,
       byHostname = map_set [] (get_prop sample_domain ''hostname'') sample_domain \<rparr> = created_store"
    by code_simp+
  show ?thesis
    unfolding createDomain_def Let_def d
    by (simp add: w m del: storage_write_def)
qed

lemma sample_deleted:
  "deleteDomain sample_id created_store = Inr (True, deleted_store)"
  by code_simp

lemma sample_reloaded:
  "initDomainStorage (Some (disk domain_storage)) = Inr created_store"
proof -
  have o: "openExisting (Some (disk domain_storage)) = Inr domain_storage"
    by code_simp
  have e: "map fst (bt_entries (index domain_storage)) = [id2]"
    by code_simp
  have k: "bt_get (index domain_storage) (stringToUUID (uuidToString id2)) = Some domain_loc"
    by code_simp
  have s: "slice (loc_offset domain_loc + UUID_SIZE + 4)
             (loc_offset domain_loc + UUID_SIZE + 4 + loc_size domain_loc) (disk domain_storage)
           = domain_payload"
    by code_simp
  have c: "crc32 domain_payload = loc_checksum domain_loc"
    by (simp add: domain_payload_crc domain_loc_def)
  have r: "storage_read (uuidToString id2) domain_storage = Inr sample_domain"
    by (rule storage_read_eval [OF k s c domain_payload_decoded])
  have t: "truthy sample_domain"
    "\<lparr> dstorage = Some domain_storage,
       domains = map_set [] (get_prop sample_domain ''id'') sample_domain,
       byHostname = map_set [] (get_prop sample_domain ''hostname'') sample_domain \<rparr> = created_store"
    by code_simp+
  show ?thesis
    unfolding initDomainStorage_def
    by (simp add: o e r t)
qed

text \<open>
  C4 fails on the code. \<open>deleteDomain\<close> (and \<open>updateDomain\<close>) call
  \<open>storage.delete(id)\<close> with the domain's own id, but the index of the storage is keyed
  by the ids \<open>Storage.write\<close> mints, so the record is never removed. After \<open>createDomain\<close>
  for \<open>a.test\<close> and \<open>deleteDomain\<close> of that domain in a new collection, \<open>deleteDomain\<close>
  returns true and the maps are empty, yet the flushed file is the same as before the
  deletion, and initialising the collection from it brings the deleted domain back.
\<close>

theorem C4_deleted_domain_comes_back:
  "then_do (initDomainStorage None) (\<lambda>s0.
   then_do (createDomain sample_input now0 rnd1 rnd2 s0) (\<lambda>(d, s1).
   then_do (deleteDomain (get_id d) s1) (\<lambda>(deleted, s2).
     Inr (deleted, getAllDomains s2, domains_file s2 = domains_file s1,
          map_sum id getAllDomains (initDomainStorage (Some (domains_file s2)))))))
   = Inr (True, [], True, Inr [sample_domain])"
proof -
  have i: "get_id sample_domain = sample_id" by code_simp
  have f: "domains_file deleted_store = disk domain_storage"
    "domains_file created_store = disk domain_storage"
    "getAllDomains deleted_store = []" "getAllDomains created_store = [sample_domain]"
    by (simp_all add: domains_file_def deleted_store_def created_store_def getAllDomains_def)
  show ?thesis
    by (simp add: init_without_file sample_created i sample_deleted f sample_reloaded)
qed


subsection \<open>Forwarding headers\<close>

lemma lowerc_literals:
  "map lowerc ''X-Forwarded-For'' = ''x-forwarded-for''"
  "map lowerc ''X-Forwarded-Proto'' = ''x-forwarded-proto''"
  "map lowerc ''X-Forwarded-Host'' = ''x-forwarded-host''"
  "map lowerc ''x-forwarded-for'' = ''x-forwarded-for''"
  by code_simp+

lemma map_of_filter_same:
  "map_of (filter (\<lambda>(a, _). a \<noteq> n) hs) n = None"
  by (induction hs) auto

lemma map_of_filter_other:
  "k \<noteq> n \<Longrightarrow> map_of (filter (\<lambda>(a, _). a \<noteq> n) hs) k = map_of hs k"
  by (induction hs) auto

lemma headers_get_set_same:
  "map lowerc n = map lowerc m \<Longrightarrow> headers_get (headers_set hs n v) m = Some v"
  by (simp add: headers_get_def headers_set_def map_add_def map_of_filter_same)

lemma headers_get_set_other:
  "map lowerc n \<noteq> map lowerc m \<Longrightarrow> headers_get (headers_set hs n v) m = headers_get hs m"
  by (simp add: headers_get_def headers_set_def map_add_def map_of_filter_other
      split: option.splits)

text \<open>
  C8 as stated fails: with no inbound \<open>X-Forwarded-For\<close> header the router never falls
  back to the socket peer, it sends \<open>"unknown"\<close>. At a request without that header whose
  peer is \<open>203.0.113.9\<close>, the header sent differs from the one the claim prescribes.
\<close>

theorem C8_peer_address_counterexample:
  "headers_get (forwardHeaders plain_request) ''X-Forwarded-For'' = Some ''unknown''
   \<and> claimed_client_ip (headers_get (req_headers plain_request) ''X-Forwarded-For'')
        (Some ''203.0.113.9'') = ''203.0.113.9''
   \<and> headers_get (forwardHeaders plain_request) ''X-Forwarded-For''
       \<noteq> Some (claimed_client_ip (headers_get (req_headers plain_request) ''X-Forwarded-For'')
                 (Some ''203.0.113.9''))"
  by code_simp

text \<open>
  C8, amended: on every forwarded request \<open>X-Forwarded-For\<close> is the leftmost
  comma-separated entry of the inbound \<open>X-Forwarded-For\<close> header with surrounding white
  space trimmed when that header is present and not empty, and the string \<open>"unknown"\<close>
  otherwise (the socket peer is never consulted); \<open>X-Forwarded-Host\<close> is the host of the
  inbound URL and \<open>X-Forwarded-Proto\<close> its scheme (the protocol without the final colon).
\<close>

theorem C8_forwarded_headers:
  "headers_get (forwardHeaders r) ''X-Forwarded-For'' =
     Some (case headers_get (req_headers r) ''X-Forwarded-For'' of
             None \<Rightarrow> ''unknown''
           | Some v \<Rightarrow> if v = [] then ''unknown'' else trim (split_first v))
   \<and> headers_get (forwardHeaders r) ''X-Forwarded-Host'' = Some (host (req_url r))
   \<and> headers_get (forwardHeaders r) ''X-Forwarded-Proto'' = Some (butlast (protocol (req_url r)))"
proof -
  have ne1: "map lowerc ''X-Forwarded-Proto'' \<noteq> map lowerc ''X-Forwarded-For''"
    and ne2: "map lowerc ''X-Forwarded-Host'' \<noteq> map lowerc ''X-Forwarded-For''"
    and ne3: "map lowerc ''X-Forwarded-Host'' \<noteq> map lowerc ''X-Forwarded-Proto''"
    by (simp_all only: lowerc_literals) simp_all
  have ip: "getClientIP r =
      (case headers_get (req_headers r) ''X-Forwarded-For'' of
         None \<Rightarrow> ''unknown''
       | Some v \<Rightarrow> if v = [] then ''unknown'' else trim (split_first v))"
    unfolding getClientIP_def headers_get_def lowerc_literals
    by (simp split: option.splits)
  show ?thesis
    unfolding forwardHeaders_def Let_def
    by (simp only: headers_get_set_same headers_get_set_other ne1 ne2 ne3 ip simp_thms)
qed

theorem C8_forwarded_headers_witness:
  "headers_get
     (forwardHeaders (plain_request\<lparr>req_headers := [(''x-forwarded-for'', '' 10.0.0.1 , 10.0.0.2'')]\<rparr>))
     ''X-Forwarded-For'' = Some ''10.0.0.1''
   \<and> headers_get (forwardHeaders plain_request) ''X-Forwarded-Host'' = Some ''a.test''
   \<and> headers_get (forwardHeaders plain_request) ''X-Forwarded-Proto'' = Some ''https''"
proof -
  have a: "headers_get [(''x-forwarded-for'', '' 10.0.0.1 , 10.0.0.2'')] ''X-Forwarded-For''
             = Some '' 10.0.0.1 , 10.0.0.2''"
    by code_simp
  have b: "trim (split_first '' 10.0.0.1 , 10.0.0.2'') = ''10.0.0.1''"
    by code_simp
  show ?thesis
    using C8_forwarded_headers
      [of "plain_request\<lparr>req_headers := [(''x-forwarded-for'', '' 10.0.0.1 , 10.0.0.2'')]\<rparr>"]
      C8_forwarded_headers [of plain_request]
    by (simp add: a b plain_request_def)
qed

subsection \<open>Starting a project\<close>

lemma exit_in_slot_None [simp]: "exit_in_slot None k i s = s"
  by (simp add: exit_in_slot_def)

lemma exit_in_slot_other [simp]: "j \<noteq> k \<Longrightarrow> exit_in_slot (Some j) k i s = s"
  by (simp add: exit_in_slot_def)













end
